theory Spec2Isabelle
  imports Main "HOL-Library.Word"
begin

section \<open>Text helpers\<close>

text \<open>
  Python strings are modelled as HOL strings restricted to ASCII text. \<open>lower\<close> is
  \<^verbatim>\<open>str.lower\<close> on such text: the letters A to Z move to a to z, every other
  character stays.
\<close>

definition lower_char :: "char \<Rightarrow> char" where
  "lower_char c =
     (let n = (of_char c :: nat)
      in if 65 \<le> n \<and> n \<le> 90 then char_of (n + 32) else c)"

definition lower :: "string \<Rightarrow> string" where
  "lower s = map lower_char s"

text \<open>\<open>starts_with p s\<close> is \<^verbatim>\<open>s.startswith(p)\<close>.\<close>

fun starts_with :: "string \<Rightarrow> string \<Rightarrow> bool" where
  "starts_with [] s = True"
| "starts_with (p # ps) [] = False"
| "starts_with (p # ps) (c # cs) = (p = c \<and> starts_with ps cs)"

text \<open>\<open>contains p s\<close> is Python's \<^verbatim>\<open>p in s\<close> on strings.\<close>

fun contains :: "string \<Rightarrow> string \<Rightarrow> bool" where
  "contains p [] = (p = [])"
| "contains p (c # cs) = (starts_with p (c # cs) \<or> contains p cs)"

section \<open>The store: tables \<open>users\<close> and \<open>downloads\<close>\<close>

text \<open>
  A user identifier is a 64-bit integer: the identifiers of the chat platform fit in
  64 bits, and so does the \<^verbatim>\<open>INTEGER PRIMARY KEY\<close> of \<^verbatim>\<open>users\<close>. Identifiers are only
  compared, never computed with.
\<close>

type_synonym tg_id = "64 word"

text \<open>
  A value handed to SQLite or stored by it: NULL, an integer, a text, the text of a
  time stamp (a reading of the clock; never the text of a number), or a floating-point
  number, given by its 64 bits. Python's \<^verbatim>\<open>True\<close> and \<^verbatim>\<open>False\<close> reach SQLite as the
  integers 1 and 0 (\<open>sql_bool\<close>).
\<close>

datatype sql_value = SNull | SInt int | SText string | STime nat | SReal "64 word"

definition sql_bool :: "bool \<Rightarrow> sql_value" where
  "sql_bool b = SInt (if b then 1 else 0)"

text \<open>
  Binding a parameter: the \<^verbatim>\<open>sqlite3\<close> module raises \<^verbatim>\<open>OverflowError\<close> for an integer
  outside the signed 64-bit range.
\<close>

definition fits_int64 :: "int \<Rightarrow> bool" where
  "fits_int64 n = (- (2 ^ 63) \<le> n \<and> n < 2 ^ 63)"

definition bindable :: "sql_value \<Rightarrow> bool" where
  "bindable v = (case v of SInt n \<Rightarrow> fits_int64 n | _ \<Rightarrow> True)"

text \<open>One row of \<^verbatim>\<open>users\<close>, in the column order of \<^verbatim>\<open>init_database\<close>.\<close>

record user_row =
  user_id :: tg_id
  username :: sql_value
  first_name :: sql_value
  last_name :: sql_value
  language_code :: sql_value
  is_subscribed :: sql_value
  subscription_checked_at :: sql_value
  first_seen :: sql_value
  last_activity :: sql_value
  total_downloads :: sql_value
  is_banned :: sql_value
  is_admin :: sql_value
  chat_mode :: sql_value

text \<open>One row of \<^verbatim>\<open>downloads\<close>.\<close>

record download_row =
  dl_id :: int
  dl_user_id :: sql_value
  dl_url :: sql_value
  dl_platform :: sql_value
  dl_quality :: sql_value
  dl_file_size :: sql_value
  dl_download_time :: sql_value
  dl_success :: sql_value
  dl_error_message :: sql_value

text \<open>
  The content of the database file. A table is the list of its rows in insertion
  order.
\<close>

record database =
  users :: "user_row list"
  downloads :: "download_row list"

datatype sql_error =
    OperationalError string
  | OverflowError
  | IntegrityError
  | OtherError string

text \<open>
  The columns of \<^verbatim>\<open>users\<close> other than the key, with the affinity that SQLite derives
  from the declared type: \<^verbatim>\<open>TEXT\<close> gives text affinity, \<^verbatim>\<open>INTEGER\<close> integer affinity,
  \<^verbatim>\<open>BOOLEAN\<close> and \<^verbatim>\<open>DATETIME\<close> numeric affinity.
\<close>

datatype column =
    Col_username | Col_first_name | Col_last_name | Col_language_code
  | Col_is_subscribed | Col_subscription_checked_at | Col_first_seen | Col_last_activity
  | Col_total_downloads | Col_is_banned | Col_is_admin | Col_chat_mode

datatype affinity = TextAffinity | NumericAffinity | IntegerAffinity

fun column_affinity :: "column \<Rightarrow> affinity" where
  "column_affinity Col_username = TextAffinity"
| "column_affinity Col_first_name = TextAffinity"
| "column_affinity Col_last_name = TextAffinity"
| "column_affinity Col_language_code = TextAffinity"
| "column_affinity Col_is_subscribed = NumericAffinity"
| "column_affinity Col_subscription_checked_at = NumericAffinity"
| "column_affinity Col_first_seen = NumericAffinity"
| "column_affinity Col_last_activity = NumericAffinity"
| "column_affinity Col_total_downloads = IntegerAffinity"
| "column_affinity Col_is_banned = NumericAffinity"
| "column_affinity Col_is_admin = NumericAffinity"
| "column_affinity Col_chat_mode = TextAffinity"


fun put_column :: "column \<Rightarrow> sql_value \<Rightarrow> user_row \<Rightarrow> user_row" where
  "put_column Col_username v r = r\<lparr>username := v\<rparr>"
| "put_column Col_first_name v r = r\<lparr>first_name := v\<rparr>"
| "put_column Col_last_name v r = r\<lparr>last_name := v\<rparr>"
| "put_column Col_language_code v r = r\<lparr>language_code := v\<rparr>"
| "put_column Col_is_subscribed v r = r\<lparr>is_subscribed := v\<rparr>"
| "put_column Col_subscription_checked_at v r = r\<lparr>subscription_checked_at := v\<rparr>"
| "put_column Col_first_seen v r = r\<lparr>first_seen := v\<rparr>"
| "put_column Col_last_activity v r = r\<lparr>last_activity := v\<rparr>"
| "put_column Col_total_downloads v r = r\<lparr>total_downloads := v\<rparr>"
| "put_column Col_is_banned v r = r\<lparr>is_banned := v\<rparr>"
| "put_column Col_is_admin v r = r\<lparr>is_admin := v\<rparr>"
| "put_column Col_chat_mode v r = r\<lparr>chat_mode := v\<rparr>"

text \<open>SQLite compares column names without regard to letter case.\<close>

definition column_names :: "(string \<times> column) list" where
  "column_names =
     [(''username'', Col_username), (''first_name'', Col_first_name),
      (''last_name'', Col_last_name), (''language_code'', Col_language_code),
      (''is_subscribed'', Col_is_subscribed),
      (''subscription_checked_at'', Col_subscription_checked_at),
      (''first_seen'', Col_first_seen), (''last_activity'', Col_last_activity),
      (''total_downloads'', Col_total_downloads), (''is_banned'', Col_is_banned),
      (''is_admin'', Col_is_admin), (''chat_mode'', Col_chat_mode)]"

definition column_of :: "string \<Rightarrow> column option" where
  "column_of k = map_of column_names (lower k)"

definition is_column :: "string \<Rightarrow> bool" where
  "is_column k = (column_of k \<noteq> None)"

text \<open>
  The names a statement can use for the key column: its own name and the three
  aliases of the row identifier.
\<close>

definition names_key :: "string \<Rightarrow> bool" where
  "names_key k = (lower k \<in> set [''user_id'', ''rowid'', ''oid'', ''_rowid_''])"

text \<open>
  A plain name: an identifier (letters, digits and underscores, not starting with a
  digit) that does not name the key column. In \<^verbatim>\<open>SET name = ?\<close> a plain name is read
  as a column name, and as nothing else.
\<close>

definition identifier_char :: "char \<Rightarrow> bool" where
  "identifier_char c =
     (let n = (of_char c :: nat)
      in (97 \<le> n \<and> n \<le> 122) \<or> (65 \<le> n \<and> n \<le> 90) \<or> (48 \<le> n \<and> n \<le> 57)
         \<or> c = CHR ''_'')"

definition py_identifier :: "string \<Rightarrow> bool" where
  "py_identifier k =
     (case k of
        [] \<Rightarrow> False
      | c # _ \<Rightarrow> \<not> (48 \<le> (of_char c :: nat) \<and> (of_char c :: nat) \<le> 57)
                 \<and> list_all identifier_char k)"

definition plain_name :: "string \<Rightarrow> bool" where
  "plain_name k = (py_identifier k \<and> \<not> names_key k)"

text \<open>
  What the model leaves to the SQLite engine, as parameters: the conversion of a text
  to a number and of a floating-point number under a column's affinity
  (\<open>convert\<close>), and the effect of an \<^verbatim>\<open>UPDATE users SET ... WHERE user_id = ?\<close> whose
  keyword names are not all plain, so that the statement may assign the key or is no
  list of assignments to columns at all (\<open>other_update\<close>).
\<close>

record engine =
  convert :: "affinity \<Rightarrow> sql_value \<Rightarrow> sql_value"
  other_update ::
    "user_row list \<Rightarrow> tg_id \<Rightarrow> (string \<times> sql_value) list \<Rightarrow> sql_error + user_row list"

text \<open>The decimal text of an integer.\<close>

fun decimal :: "nat \<Rightarrow> string" where
  "decimal n =
     (if n < 10 then [char_of (48 + n)]
      else decimal (n div 10) @ [char_of (48 + n mod 10)])"

definition int_text :: "int \<Rightarrow> string" where
  "int_text n = (if n < 0 then CHR ''-'' # decimal (nat (- n)) else decimal (nat n))"

text \<open>
  The value a column stores when it is given \<open>v\<close>. NULL and the text of a time stamp
  are stored as they are. Text affinity turns an integer into its decimal text.
  Numeric and integer affinity keep an integer; a text that reads as a number is
  converted, by the engine.
\<close>

definition stored :: "engine \<Rightarrow> affinity \<Rightarrow> sql_value \<Rightarrow> sql_value" where
  "stored eng a v =
     (case v of
        SNull \<Rightarrow> SNull
      | STime t \<Rightarrow> STime t
      | SText t \<Rightarrow> (if a = TextAffinity then SText t else convert eng a (SText t))
      | SInt n \<Rightarrow> (if a = TextAffinity then SText (int_text n) else SInt n)
      | SReal x \<Rightarrow> convert eng a (SReal x))"

text \<open>
  \<^verbatim>\<open>SELECT user_id FROM users WHERE user_id = ?\<close>: the matching rows.
\<close>

definition select_user :: "user_row list \<Rightarrow> tg_id \<Rightarrow> user_row list" where
  "select_user us uid = filter (\<lambda>r. user_id r = uid) us"

text \<open>
  \<^verbatim>\<open>INSERT INTO users (user_id, is_admin) VALUES (?, ?)\<close>: the other columns take the
  defaults of the table declaration; \<^verbatim>\<open>CURRENT_TIMESTAMP\<close> is the clock reading
  \<open>now\<close>. The primary key rejects a second row with the same \<open>user_id\<close>.
\<close>

definition new_user :: "nat \<Rightarrow> tg_id \<Rightarrow> bool \<Rightarrow> user_row" where
  "new_user now uid adm =
     \<lparr> user_id = uid,
       username = SNull,
       first_name = SNull,
       last_name = SNull,
       language_code = SNull,
       is_subscribed = sql_bool False,
       subscription_checked_at = SNull,
       first_seen = STime now,
       last_activity = STime now,
       total_downloads = SInt 0,
       is_banned = sql_bool False,
       is_admin = sql_bool adm,
       chat_mode = SText ''normal'' \<rparr>"

definition insert_user :: "user_row list \<Rightarrow> user_row \<Rightarrow> sql_error + user_row list" where
  "insert_user us r =
     (if select_user us (user_id r) = [] then Inr (us @ [r]) else Inl IntegrityError)"

text \<open>
  \<^verbatim>\<open>UPDATE users SET k1 = ?, k2 = ?, ... WHERE user_id = ?\<close>, the statement built from
  the keyword names of the call. With plain names: a name that is no column of the
  table makes the statement fail when it is prepared, whether or not a row matches;
  then the values are bound; then every matching row takes the values, a later
  assignment to a column overriding an earlier one.
\<close>

definition set_column :: "engine \<Rightarrow> string \<Rightarrow> sql_value \<Rightarrow> user_row \<Rightarrow> user_row option" where
  "set_column eng k v r =
     (case column_of k of
        None \<Rightarrow> None
      | Some c \<Rightarrow> Some (put_column c (stored eng (column_affinity c) v) r))"

fun set_columns :: "engine \<Rightarrow> (string \<times> sql_value) list \<Rightarrow> user_row \<Rightarrow> user_row" where
  "set_columns eng [] r = r"
| "set_columns eng ((k, v) # kvs) r =
     set_columns eng kvs (case set_column eng k v r of Some r' \<Rightarrow> r' | None \<Rightarrow> r)"

definition update_users ::
  "engine \<Rightarrow> user_row list \<Rightarrow> tg_id \<Rightarrow> (string \<times> sql_value) list
     \<Rightarrow> sql_error + user_row list" where
  "update_users eng us uid kwargs =
     (if \<not> list_all plain_name (map fst kwargs) then other_update eng us uid kwargs
      else (case filter (\<lambda>k. \<not> is_column k) (map fst kwargs) of
              k # _ \<Rightarrow> Inl (OperationalError k)
            | [] \<Rightarrow>
                (if \<not> list_all bindable (map snd kwargs) then Inl OverflowError
                 else Inr (map (\<lambda>r. if user_id r = uid then set_columns eng kwargs r else r) us))))"

section \<open>\<^verbatim>\<open>SubscriptionManager.update_user_info\<close>\<close>

text \<open>
  A connection sees its own uncommitted changes (\<open>pending\<close>); the file holds what
  was committed (\<open>committed\<close>). A connection that is dropped without a commit leaves
  the file as it is.
\<close>

record connection =
  committed :: database
  pending :: database

definition connect :: "database \<Rightarrow> connection" where
  "connect d = \<lparr>committed = d, pending = d\<rparr>"

definition commit :: "connection \<Rightarrow> connection" where
  "commit c = c\<lparr>committed := pending c\<rparr>"

text \<open>
  The \<^verbatim>\<open>try\<close> block, statement by statement: the connection as it is when the block
  is left, and the exception that ended it, if any. \<^verbatim>\<open>conn.commit()\<close> is the last
  statement that touches the file.
\<close>

definition try_block ::
  "engine \<Rightarrow> tg_id list \<Rightarrow> nat \<Rightarrow> database \<Rightarrow> tg_id \<Rightarrow> (string \<times> sql_value) list
     \<Rightarrow> connection \<times> sql_error option" where
  "try_block eng admins now d uid kwargs =
     (let conn = connect d
      in case (if select_user (users (pending conn)) uid = []
               then insert_user (users (pending conn)) (new_user now uid (uid \<in> set admins))
               else Inr (users (pending conn))) of
           Inl e \<Rightarrow> (conn, Some e)
         | Inr us1 \<Rightarrow>
             (let conn1 = conn\<lparr>pending := (pending conn)\<lparr>users := us1\<rparr>\<rparr>
              in if kwargs \<noteq> []
                 then (case update_users eng us1 uid kwargs of
                         Inl e \<Rightarrow> (conn1, Some e)
                       | Inr us2 \<Rightarrow>
                           (commit (conn1\<lparr>pending := (pending conn1)\<lparr>users := us2\<rparr>\<rparr>), None))
                 else (commit conn1, None)))"

datatype log_entry =
    ErrorUpdatingUserInfo sql_error
  | ErrorCheckingSubscription
  | DownloadError string
  | DownloadProcessError

text \<open>
  The whole method: \<^verbatim>\<open>except Exception\<close> logs the error and returns. Afterwards the
  database is what the file holds.
\<close>

definition update_user_info ::
  "engine \<Rightarrow> tg_id list \<Rightarrow> nat \<Rightarrow> database \<Rightarrow> tg_id \<Rightarrow> (string \<times> sql_value) list
     \<Rightarrow> database \<times> log_entry list" where
  "update_user_info eng admins now d uid kwargs =
     (case try_block eng admins now d uid kwargs of
        (conn, Some e) \<Rightarrow> (committed conn, [ErrorUpdatingUserInfo e])
      | (conn, None) \<Rightarrow> (committed conn, []))"

definition is_user_admin :: "tg_id list \<Rightarrow> tg_id \<Rightarrow> bool" where
  "is_user_admin admins uid = (uid \<in> set admins)"

section \<open>\<^verbatim>\<open>AdvancedDownloader\<close>: platform detection and URL extraction\<close>

text \<open>
  \<^verbatim>\<open>supported_domains\<close>, a dict: iteration follows the order of insertion.
\<close>

definition supported_domains :: "(string \<times> string) list" where
  "supported_domains =
     [(''youtube.com'', ''YouTube''), (''youtu.be'', ''YouTube''),
      (''instagram.com'', ''Instagram''), (''tiktok.com'', ''TikTok''),
      (''twitter.com'', ''Twitter/X''), (''x.com'', ''Twitter/X''),
      (''facebook.com'', ''Facebook''), (''fb.watch'', ''Facebook''),
      (''threads.net'', ''Threads''), (''t.me'', ''Telegram'')]"

definition quality_presets :: "(string \<times> string) list" where
  "quality_presets =
     [(''video_hd'', ''best[height<=720][ext=mp4]/best[height<=720]/best[ext=mp4]/best''),
      (''video_sd'', ''best[height<=480][ext=mp4]/best[height<=480]/best[ext=mp4]/best''),
      (''video_mobile'', ''best[height<=360][ext=mp4]/best[height<=360]/best[ext=mp4]/best''),
      (''video_best'', ''best[ext=mp4]/best''),
      (''audio_only'', ''bestaudio[ext=m4a]/bestaudio[ext=mp3]/bestaudio/best'')]"

text \<open>The \<^verbatim>\<open>for\<close> loop of \<^verbatim>\<open>detect_platform\<close> over the table, and its fall-through.\<close>

fun find_platform :: "(string \<times> string) list \<Rightarrow> string \<Rightarrow> string" where
  "find_platform [] domain = ''Unknown''"
| "find_platform ((supported_domain, platform) # rest) domain =
     (if contains supported_domain domain then platform else find_platform rest domain)"

text \<open>
  \<^verbatim>\<open>detect_platform\<close>. The standard library's \<^verbatim>\<open>urlparse(url).netloc\<close> is the
  parameter \<open>netloc\<close>; it answers \<open>None\<close> where \<^verbatim>\<open>urlparse\<close> raises, which the bare
  \<^verbatim>\<open>except\<close> turns into \<^verbatim>\<open>"Unknown"\<close>.
\<close>

definition detect_platform :: "(string \<Rightarrow> string option) \<Rightarrow> string \<Rightarrow> string" where
  "detect_platform netloc url =
     (case netloc url of
        None \<Rightarrow> ''Unknown''
      | Some n \<Rightarrow> find_platform supported_domains (lower n))"

subsection \<open>The network location of a URL\<close>

text \<open>
  \<^verbatim>\<open>urllib.parse.urlsplit\<close> of CPython 3.11, as far as it computes \<^verbatim>\<open>netloc\<close> for
  ASCII text: leading control characters and spaces are stripped, tab, carriage return
  and line feed are deleted, a leading scheme and its colon are cut off, and after
  \<^verbatim>\<open>//\<close> the network location runs up to the first of \<^verbatim>\<open>/\<close>, \<^verbatim>\<open>?\<close>, \<^verbatim>\<open>#\<close>. Brackets must
  come in pairs, and the text between them must be accepted by the library's address
  check, a parameter here (\<open>bracketed_ok\<close>).
\<close>

definition scheme_char :: "char \<Rightarrow> bool" where
  "scheme_char c =
     (let n = (of_char c :: nat)
      in (97 \<le> n \<and> n \<le> 122) \<or> (65 \<le> n \<and> n \<le> 90) \<or> (48 \<le> n \<and> n \<le> 57)
         \<or> c \<in> set ''+-.'')"

definition ascii_alpha :: "char \<Rightarrow> bool" where
  "ascii_alpha c =
     (let n = (of_char c :: nat) in (97 \<le> n \<and> n \<le> 122) \<or> (65 \<le> n \<and> n \<le> 90))"

definition strip_scheme :: "string \<Rightarrow> string" where
  "strip_scheme url =
     (let pre = takeWhile (\<lambda>c. c \<noteq> CHR '':'') url
      in if length pre < length url \<and> pre \<noteq> [] \<and> ascii_alpha (hd pre) \<and> list_all scheme_char pre
         then drop (length pre + 1) url
         else url)"

definition bracketed_host :: "string \<Rightarrow> string" where
  "bracketed_host netloc =
     takeWhile (\<lambda>c. c \<noteq> CHR '']'') (drop 1 (dropWhile (\<lambda>c. c \<noteq> CHR ''['') netloc))"

definition urlsplit_netloc :: "(string \<Rightarrow> bool) \<Rightarrow> string \<Rightarrow> string option" where
  "urlsplit_netloc bracketed_ok url =
     (let url1 = dropWhile (\<lambda>c. (of_char c :: nat) \<le> 32) url;
          url2 = filter (\<lambda>c. (of_char c :: nat) \<notin> set [9, 10, 13]) url1;
          url3 = strip_scheme url2
      in if take 2 url3 = ''//''
         then (let netloc = takeWhile (\<lambda>c. c \<notin> set ''/?#'') (drop 2 url3)
               in if (CHR ''['' \<in> set netloc) \<noteq> (CHR '']'' \<in> set netloc) then None
                  else if CHR ''['' \<in> set netloc \<and> \<not> bracketed_ok (bracketed_host netloc) then None
                  else Some netloc)
         else Some [])"

text \<open>
  The host of a network location in the sense of the specification's word "host"
  (the library's \<^verbatim>\<open>hostname\<close>): what follows the last \<^verbatim>\<open>@\<close>, without the port, in
  lower case. \<^verbatim>\<open>detect_platform\<close> does not use it.
\<close>

definition hostname_of :: "string \<Rightarrow> string" where
  "hostname_of netloc =
     (let hostinfo = rev (takeWhile (\<lambda>c. c \<noteq> CHR ''@'') (rev netloc))
      in lower (if CHR ''['' \<in> set hostinfo then bracketed_host hostinfo
                else takeWhile (\<lambda>c. c \<noteq> CHR '':'') hostinfo))"

subsection \<open>\<^verbatim>\<open>extract_urls_from_text\<close>\<close>

text \<open>
  The pattern is \<^verbatim>\<open>http[s]?://(?:[a-zA-Z]|[0-9]|[$-_@.&+]|[!*\\(\\),]|(?:%[0-9a-fA-F][0-9a-fA-F]))+\<close>.
  \<open>atom_char\<close> is the union of the four one-character alternatives, in their order;
  \<^verbatim>\<open>$-_\<close> inside the brackets is the range from code 36 to code 95.
\<close>

definition in_range :: "nat \<Rightarrow> nat \<Rightarrow> char \<Rightarrow> bool" where
  "in_range lo hi c = (lo \<le> of_char c \<and> of_char c \<le> hi)"

definition atom_char :: "char \<Rightarrow> bool" where
  "atom_char c =
     (in_range 97 122 c \<or> in_range 65 90 c
      \<or> in_range 48 57 c
      \<or> in_range 36 95 c \<or> c \<in> set ''@.&+''
      \<or> c \<in> set [CHR ''!'', CHR ''*'', CHR 0x5C, CHR ''('', CHR '')'', CHR '',''])"

definition hex_digit :: "char \<Rightarrow> bool" where
  "hex_digit c = (in_range 48 57 c \<or> in_range 97 102 c \<or> in_range 65 70 c)"

text \<open>
  The greedy repetition of the group: the matched text and the rest. The
  percent-escape alternative comes last, as in the pattern.
\<close>

fun url_run :: "string \<Rightarrow> string \<times> string" where
  "url_run [] = ([], [])"
| "url_run (c # cs) =
     (if atom_char c then (let (m, r) = url_run cs in (c # m, r))
      else (case cs of
              h1 # h2 # rest \<Rightarrow>
                (if c = CHR ''%'' \<and> hex_digit h1 \<and> hex_digit h2
                 then (let (m, r) = url_run rest in (c # h1 # h2 # m, r))
                 else ([], c # cs))
            | _ \<Rightarrow> ([], c # cs)))"

definition match_tail :: "string \<Rightarrow> string \<Rightarrow> string option" where
  "match_tail pre t =
     (if starts_with ''://'' t
      then (case url_run (drop 3 t) of
              ([], _) \<Rightarrow> None
            | (m, _) \<Rightarrow> Some (pre @ ''://'' @ m))
      else None)"

text \<open>
  A match of the whole pattern at the start of \<open>s\<close>: the optional \<^verbatim>\<open>s\<close> is tried
  first, and the match without it only when that fails.
\<close>

definition match_url :: "string \<Rightarrow> string option" where
  "match_url s =
     (if starts_with ''http'' s
      then (case (if starts_with ''s'' (drop 4 s) then match_tail ''https'' (drop 5 s) else None) of
              Some m \<Rightarrow> Some m
            | None \<Rightarrow> match_tail ''http'' (drop 4 s))
      else None)"

text \<open>
  \<^verbatim>\<open>re.findall\<close>: the matches from left to right, without overlap. The first argument
  counts the characters of the last match that are still to be passed over.
\<close>

fun findall_from :: "nat \<Rightarrow> string \<Rightarrow> string list" where
  "findall_from n [] = []"
| "findall_from (Suc n) (c # cs) = findall_from n cs"
| "findall_from 0 (c # cs) =
     (case match_url (c # cs) of
        Some m \<Rightarrow> m # findall_from (length m - 1) cs
      | None \<Rightarrow> findall_from 0 cs)"

definition extract_urls_from_text :: "string \<Rightarrow> string list" where
  "extract_urls_from_text text = findall_from 0 text"

section \<open>Collaborators and the state of the bot\<close>

text \<open>
  The answer of \<^verbatim>\<open>context.bot.get_chat_member\<close>: the member's status, or an exception.
\<close>

datatype query_result = Status string | QueryError

text \<open>The texts the bot sends, named by what they say.\<close>

datatype message_text =
    MsgDownloading
  | MsgUploading
  | MsgDownloadFailed string
  | MsgDownloadError
  | MsgSendUrl
  | MsgAdminUnderDevelopment
  | MsgSubscription
  | MsgWelcome

text \<open>
  The calls made to the store, to the chat platform and to the media extractor, in
  order.
\<close>

datatype effect =
    UpdateUserInfo tg_id "(string \<times> sql_value) list"
  | GetChatMember string tg_id
  | ReplyText message_text
  | EditStatus message_text
  | DeleteStatus
  | ExtractInfo string string
  | SendDocument tg_id string string string

text \<open>What \<^verbatim>\<open>ydl.extract_info\<close> and \<^verbatim>\<open>ydl.prepare_filename\<close> deliver.\<close>

record media_info =
  info_title :: "string option"
  info_file_path :: string
  info_duration :: "int option"
  info_filesize :: "int option"

text \<open>The success dictionary of \<^verbatim>\<open>download_content\<close>.\<close>

record download_info =
  res_title :: string
  res_platform :: string
  res_file_path :: string
  res_duration :: "int option"
  res_file_size :: "int option"

text \<open>Opening the downloaded file and sending it: both succeed, or one of them raises.\<close>

datatype upload_result = UploadOk | OpenRaises | SendRaises

text \<open>
  The world around one run of a handler: the library's URL parser, the channel's
  answer to a membership query (it may depend on the calls made so far), the media
  extractor (an error text where it raises), the outcome of the upload, the clock, and
  the SQLite engine.
  One reading of the clock serves the whole run, for \<^verbatim>\<open>datetime.now()\<close> and for
  \<^verbatim>\<open>CURRENT_TIMESTAMP\<close> alike. Sending, editing and deleting a message are taken to
  succeed; the upload is the one call to the chat platform whose failure is modelled.
\<close>

record world =
  url_netloc :: "string \<Rightarrow> string option"
  chat_member :: "effect list \<Rightarrow> string \<Rightarrow> tg_id \<Rightarrow> query_result"
  extract_info :: "string \<Rightarrow> string \<Rightarrow> string + media_info"
  upload :: "string \<Rightarrow> upload_result"
  clock :: nat
  sqlite :: engine

text \<open>\<^verbatim>\<open>SubscriptionManager\<close>: the channel and the static list of administrators.\<close>

record subscription_manager =
  channel_username :: string
  admin_ids :: "tg_id list"

text \<open>The sender and the text of an incoming update.\<close>

record tg_update =
  sender_id :: tg_id
  sender_username :: "string option"
  sender_first_name :: "string option"
  sender_last_name :: "string option"
  sender_language_code :: "string option"
  chat_id :: tg_id
  message_text :: string

record bot_state =
  db :: database
  effects :: "effect list"
  logged :: "log_entry list"

definition emit :: "bot_state \<Rightarrow> effect \<Rightarrow> bot_state" where
  "emit s e = s\<lparr>effects := effects s @ [e]\<rparr>"

definition opt_text :: "string option \<Rightarrow> sql_value" where
  "opt_text x = (case x of None \<Rightarrow> SNull | Some t \<Rightarrow> SText t)"

text \<open>A call of \<^verbatim>\<open>update_user_info\<close> from a handler, on the bot's state.\<close>

definition run_update ::
  "subscription_manager \<Rightarrow> world \<Rightarrow> bot_state \<Rightarrow> tg_id \<Rightarrow> (string \<times> sql_value) list \<Rightarrow> bot_state" where
  "run_update m w s uid kwargs =
     (case update_user_info (sqlite w) (admin_ids m) (clock w) (db s) uid kwargs of
        (d, l) \<Rightarrow>
          s\<lparr>db := d, effects := effects s @ [UpdateUserInfo uid kwargs], logged := logged s @ l\<rparr>)"

section \<open>\<^verbatim>\<open>SubscriptionManager.check_subscription\<close>\<close>

definition check_subscription ::
  "subscription_manager \<Rightarrow> world \<Rightarrow> bot_state \<Rightarrow> tg_id \<Rightarrow> bool \<times> bot_state" where
  "check_subscription m w s uid =
     (if uid \<in> set (admin_ids m) then (True, s)
      else if channel_username m \<noteq> []
      then (let s1 = emit s (GetChatMember (''@'' @ channel_username m) uid)
            in case chat_member w (effects s) (''@'' @ channel_username m) uid of
                 QueryError \<Rightarrow> (False, s1\<lparr>logged := logged s1 @ [ErrorCheckingSubscription]\<rparr>)
               | Status st \<Rightarrow>
                   (let is_sub = (st \<in> set [''member'', ''administrator'', ''creator''])
                    in (is_sub,
                        run_update m w s1 uid
                          [(''is_subscribed'', sql_bool is_sub),
                           (''subscription_checked_at'', STime (clock w))])))
      else (True, s))"

section \<open>\<^verbatim>\<open>AdvancedDownloader.download_content\<close>\<close>

text \<open>
  \<^verbatim>\<open>self.quality_presets.get(quality, self.quality_presets['video_hd'])\<close>; \<open>None\<close> is
  the \<^verbatim>\<open>KeyError\<close> of the default's lookup.
\<close>

definition preset_format :: "string \<Rightarrow> string option" where
  "preset_format quality =
     (case map_of quality_presets ''video_hd'' of
        None \<Rightarrow> None
      | Some dflt \<Rightarrow>
          Some (case map_of quality_presets quality of Some f \<Rightarrow> f | None \<Rightarrow> dflt))"

text \<open>\<^verbatim>\<open>str(e)\<close> of that \<^verbatim>\<open>KeyError\<close>: the key in single quotes.\<close>

definition key_error_text :: string where
  "key_error_text = CHR 0x27 # ''video_hd'' @ [CHR 0x27]"

definition download_content ::
  "world \<Rightarrow> bot_state \<Rightarrow> string \<Rightarrow> string \<Rightarrow> (string + download_info) \<times> bot_state" where
  "download_content w s url quality =
     (let platform = detect_platform (url_netloc w) url
      in case preset_format quality of
           None \<Rightarrow> (Inl key_error_text, s\<lparr>logged := logged s @ [DownloadError key_error_text]\<rparr>)
         | Some fmt \<Rightarrow>
             (let s1 = emit s (ExtractInfo url fmt)
              in case extract_info w url fmt of
                   Inl e \<Rightarrow> (Inl e, s1\<lparr>logged := logged s1 @ [DownloadError e]\<rparr>)
                 | Inr info \<Rightarrow>
                     (Inr \<lparr> res_title = (case info_title info of None \<Rightarrow> ''Unknown'' | Some t \<Rightarrow> t),
                            res_platform = platform,
                            res_file_path = info_file_path info,
                            res_duration = info_duration info,
                            res_file_size = info_filesize info \<rparr>,
                      s1)))"

section \<open>\<^verbatim>\<open>TelegramDownloaderBot\<close>: the handlers\<close>

definition show_main_interface :: "bot_state \<Rightarrow> bot_state" where
  "show_main_interface s = emit s (ReplyText MsgWelcome)"

definition handle_admin_commands :: "bot_state \<Rightarrow> string \<Rightarrow> bot_state" where
  "handle_admin_commands s text = emit s (ReplyText MsgAdminUnderDevelopment)"

definition process_download ::
  "subscription_manager \<Rightarrow> world \<Rightarrow> tg_update \<Rightarrow> bot_state \<Rightarrow> string \<Rightarrow> bot_state" where
  "process_download m w u s url =
     (let s0 = emit s (ReplyText MsgDownloading)
      in case download_content w s0 url ''video_hd'' of
           (Inr r, s1) \<Rightarrow>
             (let s2 = emit s1 (EditStatus MsgUploading);
                  failed = (\<lambda>t. emit (t\<lparr>logged := logged t @ [DownloadProcessError]\<rparr>)
                                   (EditStatus MsgDownloadError));
                  send = SendDocument (chat_id u) (res_file_path r) (res_platform r) (res_title r)
              in case upload w (res_file_path r) of
                   OpenRaises \<Rightarrow> failed s2
                 | SendRaises \<Rightarrow> failed (emit s2 send)
                 | UploadOk \<Rightarrow>
                     emit (run_update m w (emit s2 send) (sender_id u)
                             [(''total_downloads'', SInt 1),
                              (''last_activity'', STime (clock w))])
                          DeleteStatus)
         | (Inl e, s1) \<Rightarrow> emit s1 (EditStatus (MsgDownloadFailed e)))"

definition start_command ::
  "subscription_manager \<Rightarrow> world \<Rightarrow> tg_update \<Rightarrow> bot_state \<Rightarrow> bot_state" where
  "start_command m w u s =
     (let s1 = run_update m w s (sender_id u)
                 [(''username'', opt_text (sender_username u)),
                  (''first_name'', opt_text (sender_first_name u)),
                  (''last_name'', opt_text (sender_last_name u)),
                  (''language_code'', opt_text (sender_language_code u)),
                  (''last_activity'', STime (clock w))]
      in case check_subscription m w s1 (sender_id u) of
           (ok, s2) \<Rightarrow>
             (if \<not> ok then emit s2 (ReplyText MsgSubscription)
              else show_main_interface s2))"

definition handle_message ::
  "subscription_manager \<Rightarrow> world \<Rightarrow> tg_update \<Rightarrow> bot_state \<Rightarrow> bot_state" where
  "handle_message m w u s =
     (case check_subscription m w s (sender_id u) of
        (ok, s1) \<Rightarrow>
          (if \<not> ok then start_command m w u s1
           else (case extract_urls_from_text (message_text u) of
                   url # _ \<Rightarrow> process_download m w u s1 url
                 | [] \<Rightarrow>
                     (if is_user_admin (admin_ids m) (sender_id u)
                      then handle_admin_commands s1 (message_text u)
                      else emit s1 (ReplyText MsgSendUrl)))))"

section \<open>Notions used to state the properties\<close>

text \<open>The table after the insert-if-absent step of \<^verbatim>\<open>update_user_info\<close>.\<close>

definition with_user :: "tg_id list \<Rightarrow> nat \<Rightarrow> user_row list \<Rightarrow> tg_id \<Rightarrow> user_row list" where
  "with_user admins now us uid =
     (if select_user us uid = [] then us @ [new_user now uid (uid \<in> set admins)] else us)"

text \<open>The row that the insert of \<^verbatim>\<open>update_user_info\<close> creates, column by column.\<close>

definition default_row :: "nat \<Rightarrow> tg_id \<Rightarrow> tg_id list \<Rightarrow> user_row" where
  "default_row now uid admins =
     \<lparr> user_id = uid, username = SNull, first_name = SNull, last_name = SNull,
       language_code = SNull, is_subscribed = SInt 0, subscription_checked_at = SNull,
       first_seen = STime now, last_activity = STime now, total_downloads = SInt 0,
       is_banned = SInt 0, is_admin = SInt (if uid \<in> set admins then 1 else 0),
       chat_mode = SText ''normal'' \<rparr>"




text \<open>The effects a run has added to those of the state it started from.\<close>

definition new_effects :: "bot_state \<Rightarrow> bot_state \<Rightarrow> effect list" where
  "new_effects s s' = drop (length (effects s)) (effects s')"

text \<open>The URLs handed to the media extractor.\<close>

fun fetched :: "effect list \<Rightarrow> string list" where
  "fetched [] = []"
| "fetched (ExtractInfo url fmt # es) = url # fetched es"
| "fetched (e # es) = fetched es"

text \<open>The updates of the store that name the sender's profile.\<close>

fun profile_updates :: "effect list \<Rightarrow> effect list" where
  "profile_updates [] = []"
| "profile_updates (UpdateUserInfo uid kwargs # es) =
     (if ''username'' \<in> set (map fst kwargs)
      then UpdateUserInfo uid kwargs # profile_updates es
      else profile_updates es)"
| "profile_updates (e # es) = profile_updates es"

text \<open>
  The mappings of a table whose domain string is a substring of the given text, in
  the order of the table.
\<close>

definition matching :: "(string \<times> string) list \<Rightarrow> string \<Rightarrow> (string \<times> string) list" where
  "matching table domain = filter (\<lambda>entry. contains (fst entry) domain) table"

section \<open>Example data\<close>

definition empty_db :: database where
  "empty_db = \<lparr>users = [], downloads = []\<rparr>"

definition start_state :: bot_state where
  "start_state = \<lparr>db = empty_db, effects = [], logged = []\<rparr>"

definition news_bot :: subscription_manager where
  "news_bot = \<lparr>channel_username = ''news'', admin_ids = [1]\<rparr>"

definition open_bot :: subscription_manager where
  "open_bot = \<lparr>channel_username = [], admin_ids = [1]\<rparr>"

definition any_host :: "string \<Rightarrow> bool" where
  "any_host h = True"

definition clip :: media_info where
  "clip = \<lparr>info_title = Some ''clip'', info_file_path = ''./downloads/clip.mp4'',
            info_duration = Some 10, info_filesize = None\<rparr>"

text \<open>
  An engine that converts nothing and refuses every statement it is asked about.
\<close>

definition strict_engine :: engine where
  "strict_engine =
     \<lparr>convert = (\<lambda>a v. v),
      other_update = (\<lambda>us uid kwargs. Inl (OtherError ''refused''))\<rparr>"

text \<open>
  A world in which every membership query gets the answer \<open>q\<close> and every fetch the
  outcome \<open>f\<close>; uploads succeed, and the clock reads \<open>t\<close>.
\<close>

definition world_of :: "query_result \<Rightarrow> string + media_info \<Rightarrow> nat \<Rightarrow> world" where
  "world_of q f t =
     \<lparr>url_netloc = urlsplit_netloc any_host,
      chat_member = (\<lambda>history chat uid. q),
      extract_info = (\<lambda>url fmt. f),
      upload = (\<lambda>path. UploadOk),
      clock = t,
      sqlite = strict_engine\<rparr>"

definition message_from :: "tg_id \<Rightarrow> string \<Rightarrow> tg_update" where
  "message_from uid text =
     \<lparr>sender_id = uid, sender_username = Some ''bob'', sender_first_name = Some ''Bob'',
      sender_last_name = None, sender_language_code = Some ''en'', chat_id = uid,
      message_text = text\<rparr>"

text \<open>
  A user found to be a member at time 100, then a query that raises at time 200.
\<close>

definition member_then_error :: "bool \<times> bot_state" where
  "member_then_error =
     check_subscription news_bot (world_of QueryError (Inl ''none'') 200)
       (snd (check_subscription news_bot (world_of (Status ''member'') (Inl ''none'') 100) start_state 7)) 7"

text \<open>
  One download request of user 7 with fetch outcome \<open>f\<close>, on a bot without channel.
\<close>

definition download_once :: "string + media_info \<Rightarrow> bot_state \<Rightarrow> bot_state" where
  "download_once f s =
     process_download open_bot (world_of (Status ''member'') f 100)
       (message_from 7 ''https://youtu.be/abc123'') s ''https://youtu.be/abc123''"

section \<open>Facts about the store\<close>

lemma user_id_put_column [simp]: "user_id (put_column c v r) = user_id r"
  by (cases c) simp_all


lemma set_columns_user_id [simp]: "user_id (set_columns eng kvs r) = user_id r"
  by (induction eng kvs r rule: set_columns.induct)
     (auto simp: set_column_def split: option.splits)



lemma lower_char_identifier: "identifier_char (lower_char c) \<Longrightarrow> identifier_char c"
  by (auto simp: identifier_char_def lower_char_def Let_def split: if_splits)

lemma lower_identifier: "list_all identifier_char (lower s) \<Longrightarrow> list_all identifier_char s"
  by (induction s) (auto simp: lower_def dest: lower_char_identifier)

lemma lower_char_digit:
  "48 \<le> (of_char c :: nat) \<and> (of_char c :: nat) \<le> 57 \<Longrightarrow> lower_char c = c"
  by (simp add: lower_char_def)

lemma py_identifier_lower: "py_identifier (lower k) \<Longrightarrow> py_identifier k"
proof (cases k)
  case Nil
  assume "py_identifier (lower k)"
  with Nil show ?thesis
    by (simp add: lower_def)
next
  case (Cons c cs)
  assume a: "py_identifier (lower k)"
  with Cons have all: "list_all identifier_char (lower k)"
    and first: "\<not> (48 \<le> (of_char (lower_char c) :: nat) \<and> (of_char (lower_char c) :: nat) \<le> 57)"
    by (simp_all add: py_identifier_def lower_def)
  from first lower_char_digit [of c] have "\<not> (48 \<le> (of_char c :: nat) \<and> (of_char c :: nat) \<le> 57)"
    by auto
  with lower_identifier [OF all] Cons show ?thesis
    by (simp add: py_identifier_def)
qed

lemma column_names_plain:
  "list_all (\<lambda>n. py_identifier n \<and> n \<notin> set [''user_id'', ''rowid'', ''oid'', ''_rowid_''])
     (map fst column_names)"
  by code_simp

lemma column_plain:
  assumes "is_column k"
  shows "plain_name k"
proof -
  from assms obtain c where "map_of column_names (lower k) = Some c"
    by (auto simp: is_column_def column_of_def)
  then have "lower k \<in> set (map fst column_names)"
    by (metis map_of_eq_None_iff option.distinct(1) set_map)
  with column_names_plain
  have "py_identifier (lower k)" "lower k \<notin> set [''user_id'', ''rowid'', ''oid'', ''_rowid_'']"
    by (auto simp: list_all_iff)
  with py_identifier_lower show ?thesis
    by (simp add: plain_name_def names_key_def)
qed

lemma update_users_ok:
  assumes "list_all is_column (map fst kwargs)" and "list_all bindable (map snd kwargs)"
  shows "update_users eng us uid kwargs =
           Inr (map (\<lambda>r. if user_id r = uid then set_columns eng kwargs r else r) us)"
proof -
  from assms(1) have "list_all plain_name (map fst kwargs)"
    by (auto simp: list_all_iff dest: column_plain)
  moreover from assms(1) have "filter (\<lambda>k. \<not> is_column k) (map fst kwargs) = []"
    by (auto simp: list_all_iff filter_empty_conv)
  ultimately show ?thesis
    using assms(2) by (simp add: update_users_def)
qed

lemma update_users_bad_name:
  assumes "list_all plain_name (map fst kwargs)" and "\<not> list_all is_column (map fst kwargs)"
  shows "\<exists>k. \<not> is_column k \<and> update_users eng us uid kwargs = Inl (OperationalError k)"
proof -
  let ?bad = "filter (\<lambda>k. \<not> is_column k) (map fst kwargs)"
  from assms(2) have "?bad \<noteq> []"
    by (simp add: list_all_iff filter_empty_conv)
  then obtain k ks where bad: "?bad = k # ks"
    by (cases ?bad) auto
  then have "k \<in> set ?bad"
    by simp
  then have "\<not> is_column k"
    by simp
  moreover from bad assms(1) have "update_users eng us uid kwargs = Inl (OperationalError k)"
    by (simp add: update_users_def)
  ultimately show ?thesis
    by blast
qed

lemma update_users_overflow:
  assumes "list_all is_column (map fst kwargs)" and "\<not> list_all bindable (map snd kwargs)"
  shows "update_users eng us uid kwargs = Inl OverflowError"
proof -
  from assms(1) have "list_all plain_name (map fst kwargs)"
    by (auto simp: list_all_iff dest: column_plain)
  moreover from assms(1) have "filter (\<lambda>k. \<not> is_column k) (map fst kwargs) = []"
    by (auto simp: list_all_iff filter_empty_conv)
  ultimately show ?thesis
    using assms(2) by (simp add: update_users_def)
qed

lemma user_id_new_user [simp]: "user_id (new_user now uid adm) = uid"
  by (simp add: new_user_def)

lemma insert_user_new:
  "select_user us uid = [] \<Longrightarrow> insert_user us (new_user now uid adm) = Inr (us @ [new_user now uid adm])"
  by (simp add: insert_user_def)

lemma first_step:
  "(if select_user (users d) uid = []
    then insert_user (users d) (new_user now uid (uid \<in> set admins))
    else Inr (users d)) = Inr (with_user admins now (users d) uid)"
  by (simp add: with_user_def insert_user_new)

text \<open>The \<^verbatim>\<open>try\<close> block in terms of the one statement that can fail.\<close>

lemma try_block_eq:
  "try_block eng admins now d uid kwargs =
     (if kwargs = []
      then (\<lparr>committed = d\<lparr>users := with_user admins now (users d) uid\<rparr>,
             pending = d\<lparr>users := with_user admins now (users d) uid\<rparr>\<rparr>, None)
      else (case update_users eng (with_user admins now (users d) uid) uid kwargs of
              Inl e \<Rightarrow> (\<lparr>committed = d, pending = d\<lparr>users := with_user admins now (users d) uid\<rparr>\<rparr>,
                         Some e)
            | Inr us2 \<Rightarrow> (\<lparr>committed = d\<lparr>users := us2\<rparr>, pending = d\<lparr>users := us2\<rparr>\<rparr>, None)))"
  by (simp add: try_block_def connect_def commit_def first_step Let_def split: sum.splits)

lemma map_set_columns_nil: "map (\<lambda>r. if user_id r = uid then set_columns eng [] r else r) us = us"
  by (induction us) auto

lemma update_user_info_ok:
  assumes "list_all is_column (map fst kwargs)" and "list_all bindable (map snd kwargs)"
  shows "update_user_info eng admins now d uid kwargs =
           (d\<lparr>users := map (\<lambda>r. if user_id r = uid then set_columns eng kwargs r else r)
                            (with_user admins now (users d) uid)\<rparr>, [])"
proof (cases "kwargs = []")
  case True
  show ?thesis
    unfolding True by (simp add: update_user_info_def try_block_eq map_set_columns_nil)
next
  case False
  with update_users_ok [OF assms] show ?thesis
    by (simp add: update_user_info_def try_block_eq)
qed

lemma update_user_info_downloads:
  "downloads (fst (update_user_info eng admins now d uid kwargs)) = downloads d"
  by (simp add: update_user_info_def try_block_eq split: sum.splits)








lemma new_user_default: "new_user now uid (uid \<in> set admins) = default_row now uid admins"
  by (simp add: new_user_def default_row_def sql_bool_def)






lemma user_id_default_row [simp]: "user_id (default_row now uid admins) = uid"
  by (simp add: default_row_def)


section \<open>Facts about the handlers\<close>

lemma db_emit [simp]: "db (emit s e) = db s"
  by (simp add: emit_def)

lemma effects_emit [simp]: "effects (emit s e) = effects s @ [e]"
  by (simp add: emit_def)

lemma logged_emit [simp]: "logged (emit s e) = logged s"
  by (simp add: emit_def)

lemma downloads_run_update [simp]:
  "downloads (db (run_update m w s uid kwargs)) = downloads (db s)"
proof (cases "update_user_info (sqlite w) (admin_ids m) (clock w) (db s) uid kwargs")
  case (Pair d l)
  with update_user_info_downloads [of "sqlite w" "admin_ids m" "clock w" "db s" uid kwargs]
  show ?thesis
    by (simp add: run_update_def)
qed

lemma effects_run_update [simp]:
  "effects (run_update m w s uid kwargs) = effects s @ [UpdateUserInfo uid kwargs]"
  by (simp add: run_update_def split: prod.splits)

lemma run_update_ok:
  assumes "list_all is_column (map fst kwargs)" and "list_all bindable (map snd kwargs)"
  shows "users (db (run_update m w s uid kwargs)) =
           map (\<lambda>r. if user_id r = uid then set_columns (sqlite w) kwargs r else r)
               (with_user (admin_ids m) (clock w) (users (db s)) uid)"
  by (simp add: run_update_def update_user_info_ok [OF assms])

lemma column_literals:
  "column_of ''username'' = Some Col_username"
  "column_of ''first_name'' = Some Col_first_name"
  "column_of ''last_name'' = Some Col_last_name"
  "column_of ''language_code'' = Some Col_language_code"
  "column_of ''is_subscribed'' = Some Col_is_subscribed"
  "column_of ''subscription_checked_at'' = Some Col_subscription_checked_at"
  "column_of ''last_activity'' = Some Col_last_activity"
  "column_of ''total_downloads'' = Some Col_total_downloads"
  by code_simp+

lemma bindable_simps [simp]:
  "bindable SNull" "bindable (SText t)" "bindable (STime n)" "bindable (sql_bool b)"
  "bindable (SInt 1)" "bindable (opt_text x)"
  by (simp_all add: bindable_def sql_bool_def fits_int64_def opt_text_def split: option.splits)

lemma gate_columns:
  "list_all is_column (map fst [(''is_subscribed'', a), (''subscription_checked_at'', b)])"
  by (simp add: is_column_def column_literals)

lemma gate_fields:
  "set_columns eng [(''is_subscribed'', sql_bool b), (''subscription_checked_at'', STime t)] r =
     r\<lparr>is_subscribed := sql_bool b, subscription_checked_at := STime t\<rparr>"
  by (simp add: set_column_def column_literals stored_def sql_bool_def)

lemma select_user_updated:
  "select_user (map (\<lambda>r. if user_id r = uid then f r else r) us) uid =
     map f (select_user us uid)" if "\<And>r. user_id (f r) = user_id r"
  by (induction us) (auto simp: select_user_def that)

lemma with_user_nonempty: "select_user (with_user admins now us uid) uid \<noteq> []"
  by (auto simp: with_user_def select_user_def)

lemma downloads_check_subscription [simp]:
  "downloads (db (snd (check_subscription m w s uid))) = downloads (db s)"
  by (simp add: check_subscription_def Let_def split: query_result.splits)

lemma db_download_content [simp]: "db (snd (download_content w s url quality)) = db s"
  by (simp add: download_content_def Let_def split: option.splits sum.splits)

lemma downloads_process_download [simp]:
  "downloads (db (process_download m w u s url)) = downloads (db s)"
proof (cases "download_content w (emit s (ReplyText MsgDownloading)) url ''video_hd''")
  case (Pair res s1)
  with db_download_content [of w "emit s (ReplyText MsgDownloading)" url "''video_hd''"]
  have "db s1 = db s"
    by simp
  with Pair show ?thesis
    by (cases res) (simp_all add: process_download_def Let_def split: upload_result.splits)
qed

lemma preset_video_hd:
  "preset_format ''video_hd'' = Some ''best[height<=720][ext=mp4]/best[height<=720]/best[ext=mp4]/best''"
  by code_simp

lemma fetched_append: "fetched (xs @ ys) = fetched xs @ fetched ys"
  by (induction xs rule: fetched.induct) simp_all

lemma profile_updates_append:
  "profile_updates (xs @ ys) = profile_updates xs @ profile_updates ys"
  by (induction xs rule: profile_updates.induct) simp_all

lemma new_effects_append: "effects s' = effects s @ xs \<Longrightarrow> new_effects s s' = xs"
  by (simp add: new_effects_def)

lemma check_subscription_effects:
  "\<exists>xs. effects (snd (check_subscription m w s uid)) = effects s @ xs
        \<and> profile_updates xs = [] \<and> fetched xs = []
        \<and> (uid \<notin> set (admin_ids m) \<and> channel_username m \<noteq> [] \<longrightarrow>
             (\<exists>ys. xs = GetChatMember (''@'' @ channel_username m) uid # ys))"
  by (cases "chat_member w (effects s) (''@'' @ channel_username m) uid")
     (simp_all add: check_subscription_def Let_def)

lemma download_content_effects:
  "effects (snd (download_content w s url ''video_hd'')) =
     effects s @ [ExtractInfo url ''best[height<=720][ext=mp4]/best[height<=720]/best[ext=mp4]/best'']"
  by (simp add: download_content_def preset_video_hd Let_def split: sum.splits)

lemma process_download_effects:
  "\<exists>xs. effects (process_download m w u s url) = effects s @ xs
        \<and> profile_updates xs = [] \<and> fetched xs = [url]"
proof (cases "download_content w (emit s (ReplyText MsgDownloading)) url ''video_hd''")
  case (Pair res s1)
  with download_content_effects [of w "emit s (ReplyText MsgDownloading)" url]
  have e: "effects s1 = effects s @ [ReplyText MsgDownloading,
      ExtractInfo url ''best[height<=720][ext=mp4]/best[height<=720]/best[ext=mp4]/best'']"
    by simp
  show ?thesis
  proof (cases res)
    case (Inl err)
    with Pair e show ?thesis
      by (simp add: process_download_def)
  next
    case (Inr r)
    with Pair e show ?thesis
      by (cases "upload w (res_file_path r)") (simp_all add: process_download_def Let_def)
  qed
qed

lemma extract_example:
  "extract_urls_from_text ''check this out https://youtu.be/abc123 thanks'' = [''https://youtu.be/abc123'']"
  by code_simp

lemma netloc_youtu_be: "urlsplit_netloc b ''https://youtu.be/abc123'' = Some ''youtu.be''"
  by (simp add: urlsplit_netloc_def strip_scheme_def ascii_alpha_def scheme_char_def Let_def)

lemma find_youtu_be: "find_platform supported_domains (lower ''youtu.be'') = ''YouTube''"
  by code_simp

lemma starts_with_iff: "starts_with p s \<longleftrightarrow> (\<exists>b. s = p @ b)"
  by (induction p s rule: starts_with.induct) auto

lemma contains_iff: "contains p s \<longleftrightarrow> (\<exists>a b. s = a @ p @ b)"
proof (induction s)
  case Nil
  then show ?case by auto
next
  case (Cons c cs)
  show ?case
  proof
    assume "contains p (c # cs)"
    then consider "starts_with p (c # cs)" | "contains p cs"
      by auto
    then show "\<exists>a b. c # cs = a @ p @ b"
    proof cases
      case 1
      then obtain b where "c # cs = p @ b"
        by (auto simp: starts_with_iff)
      then have "c # cs = [] @ p @ b"
        by simp
      then show ?thesis
        by blast
    next
      case 2
      with Cons.IH obtain a b where "cs = a @ p @ b"
        by blast
      then have "c # cs = (c # a) @ p @ b"
        by simp
      then show ?thesis
        by blast
    qed
  next
    assume "\<exists>a b. c # cs = a @ p @ b"
    then obtain a b where ab: "c # cs = a @ p @ b"
      by blast
    show "contains p (c # cs)"
    proof (cases a)
      case Nil
      with ab have "starts_with p (c # cs)"
        by (auto simp: starts_with_iff)
      then show ?thesis
        by simp
    next
      case (Cons x a')
      with ab have "cs = a' @ p @ b"
        by simp
      with Cons.IH have "contains p cs"
        by blast
      then show ?thesis
        by simp
    qed
  qed
qed

lemma find_platform_matching:
  "find_platform table x = (case matching table x of [] \<Rightarrow> ''Unknown'' | entry # _ \<Rightarrow> snd entry)"
  by (induction table) (auto simp: matching_def)

lemma netloc_example_org: "urlsplit_netloc b ''https://example.org/x'' = Some ''example.org''"
  by (simp add: urlsplit_netloc_def strip_scheme_def ascii_alpha_def scheme_char_def Let_def)

lemma no_match_example_org: "matching supported_domains (lower ''example.org'') = []"
  by code_simp

lemma no_url_in_hello: "extract_urls_from_text ''hello'' = []"
  by code_simp

lemma handle_message_authorized:
  assumes "check_subscription m w s (sender_id u) = (True, s1)"
  shows "\<exists>xs. effects (handle_message m w u s) = effects s @ xs \<and> profile_updates xs = []
           \<and> fetched xs = (case extract_urls_from_text (message_text u) of [] \<Rightarrow> [] | url # _ \<Rightarrow> [url])"
proof -
  from check_subscription_effects [of m w s "sender_id u"] assms
  obtain xs where xs: "effects s1 = effects s @ xs" "profile_updates xs = []" "fetched xs = []"
    by auto
  show ?thesis
  proof (cases "extract_urls_from_text (message_text u)")
    case Nil
    with assms xs show ?thesis
      by (simp add: handle_message_def handle_admin_commands_def fetched_append profile_updates_append)
  next
    case (Cons url others)
    from process_download_effects [of m w u s1 url]
    obtain ys where "effects (process_download m w u s1 url) = effects s1 @ ys"
      "profile_updates ys = []" "fetched ys = [url]"
      by blast
    with assms xs Cons show ?thesis
      by (simp add: handle_message_def fetched_append profile_updates_append)
  qed
qed

lemma profile_columns:
  "list_all is_column (map fst
     [(''username'', a), (''first_name'', b), (''last_name'', c), (''language_code'', d),
      (''last_activity'', e)])"
  by (simp add: is_column_def column_literals)

lemma profile_fields:
  "set_columns eng
     [(''username'', opt_text a), (''first_name'', opt_text b), (''last_name'', opt_text c),
      (''language_code'', opt_text d), (''last_activity'', STime t)] r =
     r\<lparr>username := opt_text a, first_name := opt_text b, last_name := opt_text c,
       language_code := opt_text d, last_activity := STime t\<rparr>"
  by (simp add: set_column_def column_literals stored_def opt_text_def split: option.splits)

text \<open>The gate leaves the profile columns of the user's rows as they are.\<close>

lemma check_subscription_rows:
  assumes "select_user (users (db s)) uid \<noteq> []"
  shows "\<exists>g. select_user (users (db (snd (check_subscription m w s uid)))) uid
               = map g (select_user (users (db s)) uid)
            \<and> (\<forall>r. username (g r) = username r \<and> first_name (g r) = first_name r
                   \<and> last_name (g r) = last_name r \<and> language_code (g r) = language_code r
                   \<and> last_activity (g r) = last_activity r)"
proof -
  have same: "\<exists>g. select_user (users (db s')) uid = map g (select_user (users (db s)) uid)
            \<and> (\<forall>r. username (g r) = username r \<and> first_name (g r) = first_name r
                   \<and> last_name (g r) = last_name r \<and> language_code (g r) = language_code r
                   \<and> last_activity (g r) = last_activity r)" if "db s' = db s" for s'
    using that by (intro exI [of _ "\<lambda>r. r"]) simp
  show ?thesis
  proof (cases "uid \<in> set (admin_ids m) \<or> channel_username m = []")
    case True
    then have "db (snd (check_subscription m w s uid)) = db s"
      by (auto simp: check_subscription_def)
    then show ?thesis
      by (rule same)
  next
    case False
    show ?thesis
    proof (cases "chat_member w (effects s) (''@'' @ channel_username m) uid")
      case QueryError
      with False have "db (snd (check_subscription m w s uid)) = db s"
        by (simp add: check_subscription_def Let_def)
      then show ?thesis
        by (rule same)
    next
      case (Status st)
      let ?sub = "st \<in> set [''member'', ''administrator'', ''creator'']"
      let ?kw = "[(''is_subscribed'', sql_bool ?sub), (''subscription_checked_at'', STime (clock w))]"
      let ?s1 = "emit s (GetChatMember (''@'' @ channel_username m) uid)"
      let ?g = "\<lambda>r. r\<lparr>is_subscribed := sql_bool ?sub, subscription_checked_at := STime (clock w)\<rparr>"
      have res: "snd (check_subscription m w s uid) = run_update m w ?s1 uid ?kw"
        using False Status by (simp add: check_subscription_def Let_def)
      have vb: "list_all bindable (map snd ?kw)"
        by (simp del: set_simps)
      from assms have wu: "with_user (admin_ids m) (clock w) (users (db s)) uid = users (db s)"
        by (simp add: with_user_def)
      have "select_user (users (db (run_update m w ?s1 uid ?kw))) uid =
              map (set_columns (sqlite w) ?kw) (select_user (users (db s)) uid)"
        by (simp only: run_update_ok [OF gate_columns vb] db_emit wu
              select_user_updated [of "set_columns (sqlite w) ?kw", OF set_columns_user_id])
      also have "set_columns (sqlite w) ?kw = ?g"
        by (rule ext) (simp only: gate_fields)
      finally have "select_user (users (db (snd (check_subscription m w s uid)))) uid
                      = map ?g (select_user (users (db s)) uid)"
        by (simp only: res)
      then show ?thesis
        by (intro exI [of _ ?g]) simp
    qed
  qed
qed

lemma start_command_effects:
  "\<exists>rest. new_effects s (start_command m w u s) =
      UpdateUserInfo (sender_id u)
         [(''username'', opt_text (sender_username u)),
          (''first_name'', opt_text (sender_first_name u)),
          (''last_name'', opt_text (sender_last_name u)),
          (''language_code'', opt_text (sender_language_code u)),
          (''last_activity'', STime (clock w))] # rest"
proof -
  let ?p = "[(''username'', opt_text (sender_username u)),
          (''first_name'', opt_text (sender_first_name u)),
          (''last_name'', opt_text (sender_last_name u)),
          (''language_code'', opt_text (sender_language_code u)),
          (''last_activity'', STime (clock w))]"
  let ?s1 = "run_update m w s (sender_id u) ?p"
  obtain ok s2 where g: "check_subscription m w ?s1 (sender_id u) = (ok, s2)"
    by (cases "check_subscription m w ?s1 (sender_id u)")
  from check_subscription_effects [of m w ?s1 "sender_id u"] g
  obtain xs where "effects s2 = effects ?s1 @ xs"
    by auto
  with g have "\<exists>ys. effects (start_command m w u s) =
      effects s @ UpdateUserInfo (sender_id u) ?p # ys"
    by (simp add: start_command_def Let_def show_main_interface_def)
  then show ?thesis
    by (auto simp: new_effects_def)
qed

lemma start_command_db:
  "db (start_command m w u s) =
     db (snd (check_subscription m w
        (run_update m w s (sender_id u)
         [(''username'', opt_text (sender_username u)),
          (''first_name'', opt_text (sender_first_name u)),
          (''last_name'', opt_text (sender_last_name u)),
          (''language_code'', opt_text (sender_language_code u)),
          (''last_activity'', STime (clock w))]) (sender_id u)))"
  by (cases "check_subscription m w
        (run_update m w s (sender_id u)
         [(''username'', opt_text (sender_username u)),
          (''first_name'', opt_text (sender_first_name u)),
          (''last_name'', opt_text (sender_last_name u)),
          (''language_code'', opt_text (sender_language_code u)),
          (''last_activity'', STime (clock w))]) (sender_id u)")
     (simp add: start_command_def Let_def show_main_interface_def)

lemma downloads_start_command [simp]:
  "downloads (db (start_command m w u s)) = downloads (db s)"
  by (simp only: start_command_db downloads_check_subscription downloads_run_update)

lemma start_command_row:
  "select_user (users (db (start_command m w u s))) (sender_id u) \<noteq> []
   \<and> list_all (\<lambda>r. username r = opt_text (sender_username u)
                  \<and> first_name r = opt_text (sender_first_name u)
                  \<and> last_name r = opt_text (sender_last_name u)
                  \<and> language_code r = opt_text (sender_language_code u)
                  \<and> last_activity r = STime (clock w))
        (select_user (users (db (start_command m w u s))) (sender_id u))"
proof -
  let ?uid = "sender_id u"
  let ?p = "[(''username'', opt_text (sender_username u)),
          (''first_name'', opt_text (sender_first_name u)),
          (''last_name'', opt_text (sender_last_name u)),
          (''language_code'', opt_text (sender_language_code u)),
          (''last_activity'', STime (clock w))]"
  let ?s1 = "run_update m w s ?uid ?p"
  let ?rows = "select_user (with_user (admin_ids m) (clock w) (users (db s)) ?uid) ?uid"
  have vb: "list_all bindable (map snd ?p)"
    by (simp del: set_simps)
  have s1: "select_user (users (db ?s1)) ?uid = map (set_columns (sqlite w) ?p) ?rows"
    by (simp only: run_update_ok [OF profile_columns vb]
          select_user_updated [of "set_columns (sqlite w) ?p", OF set_columns_user_id])
  with with_user_nonempty [of "admin_ids m" "clock w" "users (db s)" ?uid]
  have ne: "select_user (users (db ?s1)) ?uid \<noteq> []"
    by simp
  from check_subscription_rows [OF ne, of m w] obtain g where
    g: "select_user (users (db (snd (check_subscription m w ?s1 ?uid)))) ?uid
          = map g (select_user (users (db ?s1)) ?uid)"
    and keep: "\<forall>r. username (g r) = username r \<and> first_name (g r) = first_name r
                   \<and> last_name (g r) = last_name r \<and> language_code (g r) = language_code r
                   \<and> last_activity (g r) = last_activity r"
    by blast
  have rows: "select_user (users (db (start_command m w u s))) ?uid
                = map (\<lambda>r. g (set_columns (sqlite w) ?p r)) ?rows"
    by (simp only: start_command_db g s1 map_map comp_def)
  from ne s1 have "?rows \<noteq> []"
    by simp
  with rows keep show ?thesis
    by (simp add: list_all_iff profile_fields del: set_columns.simps)
qed

section \<open>Properties of the bot\<close>



text \<open>
  C6 as stated fails: for an unseen user a call with a keyword that is no column, and
  a call with an integer outside the 64-bit range, log an error and leave no row.
\<close>

theorem failed_upsert_leaves_no_row_counterexample:
  "select_user (users empty_db) 7 = []
   \<and> update_user_info strict_engine [1] 5 empty_db 7 [(''nickname'', SText ''bobby'')]
       = (empty_db, [ErrorUpdatingUserInfo (OperationalError ''nickname'')])
   \<and> update_user_info strict_engine [1] 5 empty_db 7 [(''total_downloads'', SInt (2 ^ 63))]
       = (empty_db, [ErrorUpdatingUserInfo OverflowError])
   \<and> length (select_user (users (fst (update_user_info strict_engine [1] 5 empty_db 7
        [(''nickname'', SText ''bobby'')]))) 7) = 0"
  by code_simp

text \<open>
  C10. Whenever the \<^verbatim>\<open>try\<close> block of \<^verbatim>\<open>update_user_info\<close> is left by an exception,
  the method returns with the error logged and the database as it was before the
  call; for an unseen user the connection held the inserted row when the exception
  was raised, and the database has no row for the user. The block is left by an
  exception exactly when the UPDATE raises; it does so for a plain keyword name that
  is no column and for an integer value that cannot be bound.
\<close>

theorem update_user_info_error_discards:
  "(snd (try_block eng admins now d uid kwargs) = Some e \<longrightarrow>
      update_user_info eng admins now d uid kwargs = (d, [ErrorUpdatingUserInfo e])
      \<and> (select_user (users d) uid = [] \<longrightarrow>
           select_user (users (pending (fst (try_block eng admins now d uid kwargs)))) uid
             = [default_row now uid admins]
           \<and> select_user (users (fst (update_user_info eng admins now d uid kwargs))) uid = []))
   \<and> ((snd (try_block eng admins now d uid kwargs) = None)
        = (kwargs = [] \<or> (\<exists>us. update_users eng (with_user admins now (users d) uid) uid kwargs = Inr us)))
   \<and> (snd (try_block eng admins now d uid kwargs) = None \<longrightarrow>
        snd (update_user_info eng admins now d uid kwargs) = [])
   \<and> (list_all plain_name (map fst kwargs) \<and> \<not> list_all is_column (map fst kwargs) \<longrightarrow>
        (\<exists>k. \<not> is_column k
            \<and> snd (try_block eng admins now d uid kwargs) = Some (OperationalError k)))
   \<and> (list_all is_column (map fst kwargs) \<and> \<not> list_all bindable (map snd kwargs) \<longrightarrow>
        snd (try_block eng admins now d uid kwargs) = Some OverflowError)"
proof -
  let ?t = "try_block eng admins now d uid kwargs"
  let ?u = "update_users eng (with_user admins now (users d) uid) uid kwargs"
  have raised: "update_user_info eng admins now d uid kwargs = (d, [ErrorUpdatingUserInfo e])
      \<and> (select_user (users d) uid = [] \<longrightarrow>
           select_user (users (pending (fst ?t))) uid = [default_row now uid admins]
           \<and> select_user (users (fst (update_user_info eng admins now d uid kwargs))) uid = [])"
    if e: "snd ?t = Some e"
  proof -
    from e have ne: "kwargs \<noteq> []"
      by (auto simp: try_block_eq)
    with e obtain e' where u: "?u = Inl e'"
      by (cases ?u) (auto simp: try_block_eq)
    with ne e have ee: "e' = e"
      by (simp add: try_block_eq)
    from ne u ee have t: "?t = (\<lparr>committed = d,
        pending = d\<lparr>users := with_user admins now (users d) uid\<rparr>\<rparr>, Some e)"
      by (simp add: try_block_eq)
    then have res: "update_user_info eng admins now d uid kwargs = (d, [ErrorUpdatingUserInfo e])"
      by (simp add: update_user_info_def)
    have "select_user (users (pending (fst ?t))) uid = [default_row now uid admins]"
      if "select_user (users d) uid = []"
      using that by (simp add: t with_user_def select_user_def new_user_default)
    with res show ?thesis
      by simp
  qed
  have iff: "(snd ?t = None) = (kwargs = [] \<or> (\<exists>us. ?u = Inr us))"
    by (cases ?u) (auto simp: try_block_eq)
  have quiet: "snd (update_user_info eng admins now d uid kwargs) = []" if "snd ?t = None"
    using that by (cases ?t) (simp add: update_user_info_def)
  have bad: "\<exists>k. \<not> is_column k \<and> snd ?t = Some (OperationalError k)"
    if "list_all plain_name (map fst kwargs)" "\<not> list_all is_column (map fst kwargs)"
  proof -
    from that(2) have ne: "kwargs \<noteq> []"
      by auto
    from update_users_bad_name [OF that, of eng "with_user admins now (users d) uid" uid]
    obtain k where "\<not> is_column k" "?u = Inl (OperationalError k)"
      by blast
    with ne show ?thesis
      by (auto simp: try_block_eq)
  qed
  have over: "snd ?t = Some OverflowError"
    if "list_all is_column (map fst kwargs)" "\<not> list_all bindable (map snd kwargs)"
  proof -
    from that(2) have ne: "kwargs \<noteq> []"
      by auto
    with update_users_overflow [OF that, of eng "with_user admins now (users d) uid" uid]
    show ?thesis
      by (simp add: try_block_eq)
  qed
  from raised iff quiet bad over show ?thesis
    by blast
qed

theorem update_user_info_error_discards_witness:
  "snd (try_block strict_engine [1] 5 empty_db 7 [(''nickname'', SText ''bobby'')])
     = Some (OperationalError ''nickname'')
   \<and> select_user (users empty_db) 7 = []
   \<and> update_user_info strict_engine [1] 5 empty_db 7 [(''nickname'', SText ''bobby'')]
       = (empty_db, [ErrorUpdatingUserInfo (OperationalError ''nickname'')])
   \<and> select_user (users (pending (fst (try_block strict_engine [1] 5 empty_db 7
         [(''nickname'', SText ''bobby'')])))) 7 = [default_row 5 7 [1]]
   \<and> select_user (users (fst (update_user_info strict_engine [1] 5 empty_db 7
         [(''nickname'', SText ''bobby'')]))) 7 = []
   \<and> list_all plain_name (map fst [(''nickname'', SText ''bobby'')])
   \<and> \<not> list_all is_column (map fst [(''nickname'', SText ''bobby'')])
   \<and> list_all is_column (map fst [(''total_downloads'', SInt (2 ^ 63))])
   \<and> \<not> list_all bindable (map snd [(''total_downloads'', SInt (2 ^ 63))])
   \<and> snd (try_block strict_engine [1] 5 empty_db 7 [(''total_downloads'', SInt (2 ^ 63))])
       = Some OverflowError
   \<and> update_user_info strict_engine [1] 5 empty_db 7 [(''total_downloads'', SInt (2 ^ 63))]
       = (empty_db, [ErrorUpdatingUserInfo OverflowError])"
proof -
  let ?bad = "[(''nickname'', SText ''bobby'')]"
  let ?big = "[(''total_downloads'', SInt (2 ^ 63))]"
  have h1: "snd (try_block strict_engine [1] 5 empty_db 7 ?bad) = Some (OperationalError ''nickname'')"
    by code_simp
  have h2: "select_user (users empty_db) 7 = []"
    by (simp add: empty_db_def select_user_def)
  have h3: "list_all plain_name (map fst ?bad)"
    by code_simp
  have h4: "\<not> list_all is_column (map fst ?bad)"
    by code_simp
  have h5: "list_all is_column (map fst ?big)"
    by code_simp
  have h6: "\<not> list_all bindable (map snd ?big)"
    by code_simp
  note a = update_user_info_error_discards [where eng = strict_engine and admins = "[1]" and now = 5
      and d = empty_db and uid = 7 and kwargs = ?bad and e = "OperationalError ''nickname''"]
  note b = update_user_info_error_discards [where eng = strict_engine and admins = "[1]" and now = 5
      and d = empty_db and uid = 7 and kwargs = ?big and e = OverflowError]
  from a [THEN conjunct1, rule_format, OF h1]
  have a1: "update_user_info strict_engine [1] 5 empty_db 7 ?bad
              = (empty_db, [ErrorUpdatingUserInfo (OperationalError ''nickname'')])"
    and a2: "select_user (users empty_db) 7 = [] \<longrightarrow>
           select_user (users (pending (fst (try_block strict_engine [1] 5 empty_db 7 ?bad)))) 7
             = [default_row 5 7 [1]]
           \<and> select_user (users (fst (update_user_info strict_engine [1] 5 empty_db 7 ?bad))) 7 = []"
    by (rule conjunct1, rule conjunct2)
  from a2 [rule_format, OF h2]
  have a3: "select_user (users (pending (fst (try_block strict_engine [1] 5 empty_db 7 ?bad)))) 7
             = [default_row 5 7 [1]]"
    and a4: "select_user (users (fst (update_user_info strict_engine [1] 5 empty_db 7 ?bad))) 7 = []"
    by (rule conjunct1, rule conjunct2)
  from b [THEN conjunct2, THEN conjunct2, THEN conjunct2, THEN conjunct2, rule_format, OF conjI, OF h5 h6]
  have b1: "snd (try_block strict_engine [1] 5 empty_db 7 ?big) = Some OverflowError" .
  from b [THEN conjunct1, rule_format, OF b1]
  have b2: "update_user_info strict_engine [1] 5 empty_db 7 ?big
              = (empty_db, [ErrorUpdatingUserInfo OverflowError])"
    by (rule conjunct1)
  from h1 h2 a1 a3 a4 h3 h4 h5 h6 b1 b2 show ?thesis
    by (intro conjI) assumption+
qed

text \<open>
  C5. For a user of the static admin allow-list the gate answers \<^verbatim>\<open>True\<close>
  (AUTHORIZED) and leaves the state as it was: no membership query is made and
  nothing is written, whatever the channel and the world are.
\<close>

theorem admin_bypass:
  assumes "uid \<in> set (admin_ids m)"
  shows "check_subscription m w s uid = (True, s)
         \<and> new_effects s (snd (check_subscription m w s uid)) = []"
  using assms by (simp add: check_subscription_def new_effects_def)

theorem admin_bypass_witness:
  "(1::tg_id) \<in> set (admin_ids news_bot)
   \<and> check_subscription news_bot (world_of (Status ''left'') (Inl ''none'') 100) start_state 1
       = (True, start_state)
   \<and> new_effects start_state
        (snd (check_subscription news_bot (world_of (Status ''left'') (Inl ''none'') 100) start_state 1)) = []"
proof -
  have h: "(1::tg_id) \<in> set (admin_ids news_bot)"
    by (simp add: news_bot_def)
  from admin_bypass [OF h] h show ?thesis
    by blast
qed

text \<open>
  C8. With an empty channel identifier the gate answers \<^verbatim>\<open>True\<close> (AUTHORIZED) for
  every user and leaves the state as it was: no membership query is made.
\<close>

theorem no_channel_passthrough:
  assumes "channel_username m = []"
  shows "check_subscription m w s uid = (True, s)
         \<and> new_effects s (snd (check_subscription m w s uid)) = []"
  using assms by (simp add: check_subscription_def new_effects_def)

theorem no_channel_passthrough_witness:
  "channel_username open_bot = []
   \<and> check_subscription open_bot (world_of (Status ''left'') (Inl ''none'') 100) start_state 7
       = (True, start_state)
   \<and> new_effects start_state
        (snd (check_subscription open_bot (world_of (Status ''left'') (Inl ''none'') 100) start_state 7)) = []"
proof -
  have h: "channel_username open_bot = []"
    by (simp add: open_bot_def)
  from no_channel_passthrough [OF h] h show ?thesis
    by blast
qed

text \<open>
  C2, amended. For a user outside the allow-list and a configured channel the gate
  queries the channel. When the query answers with a status, the decision is
  \<^verbatim>\<open>True\<close> exactly for \<^verbatim>\<open>member\<close>, \<^verbatim>\<open>administrator\<close> and \<^verbatim>\<open>creator\<close>, the
  calls made are the query and one write of the two fields, the user has a row, and
  that row's \<^verbatim>\<open>is_subscribed\<close> and \<^verbatim>\<open>subscription_checked_at\<close> match the decision
  and the clock. When the query raises, the decision is \<^verbatim>\<open>False\<close>, the query is the
  only call made, and the database is not written.
\<close>

theorem membership_mapping:
  assumes "uid \<notin> set (admin_ids m)" and "channel_username m \<noteq> []"
  shows "(case chat_member w (effects s) (''@'' @ channel_username m) uid of
            Status st \<Rightarrow>
              fst (check_subscription m w s uid)
                = (st \<in> set [''member'', ''administrator'', ''creator''])
              \<and> select_user (users (db (snd (check_subscription m w s uid)))) uid \<noteq> []
              \<and> list_all (\<lambda>r. is_subscribed r = sql_bool (fst (check_subscription m w s uid))
                               \<and> subscription_checked_at r = STime (clock w))
                   (select_user (users (db (snd (check_subscription m w s uid)))) uid)
              \<and> new_effects s (snd (check_subscription m w s uid))
                  = [GetChatMember (''@'' @ channel_username m) uid,
                     UpdateUserInfo uid
                       [(''is_subscribed'', sql_bool (fst (check_subscription m w s uid))),
                        (''subscription_checked_at'', STime (clock w))]]
          | QueryError \<Rightarrow>
              fst (check_subscription m w s uid) = False
              \<and> db (snd (check_subscription m w s uid)) = db s
              \<and> new_effects s (snd (check_subscription m w s uid))
                  = [GetChatMember (''@'' @ channel_username m) uid])"
proof (cases "chat_member w (effects s) (''@'' @ channel_username m) uid")
  case QueryError
  with assms show ?thesis
    by (simp add: check_subscription_def new_effects_def Let_def)
next
  case (Status st)
  let ?sub = "st \<in> set [''member'', ''administrator'', ''creator'']"
  let ?kw = "[(''is_subscribed'', sql_bool ?sub), (''subscription_checked_at'', STime (clock w))]"
  let ?s1 = "emit s (GetChatMember (''@'' @ channel_username m) uid)"
  have res: "check_subscription m w s uid = (?sub, run_update m w ?s1 uid ?kw)"
    using assms Status by (simp add: check_subscription_def Let_def)
  have vb: "list_all bindable (map snd ?kw)"
    by (simp del: set_simps)
  have us: "select_user (users (db (run_update m w ?s1 uid ?kw))) uid =
              map (set_columns (sqlite w) ?kw)
                (select_user (with_user (admin_ids m) (clock w) (users (db s)) uid) uid)"
    by (simp only: run_update_ok [OF gate_columns vb] db_emit
          select_user_updated [of "set_columns (sqlite w) ?kw", OF set_columns_user_id])
  have ne: "select_user (users (db (run_update m w ?s1 uid ?kw))) uid \<noteq> []"
    unfolding us using with_user_nonempty by simp
  have vals: "list_all (\<lambda>r. is_subscribed r = sql_bool ?sub \<and> subscription_checked_at r = STime (clock w))
                (select_user (users (db (run_update m w ?s1 uid ?kw))) uid)"
    unfolding us by (simp add: list_all_iff gate_fields del: set_columns.simps)
  have eff: "new_effects s (run_update m w ?s1 uid ?kw) =
               [GetChatMember (''@'' @ channel_username m) uid, UpdateUserInfo uid ?kw]"
    by (simp add: new_effects_def)
  from ne vals eff show ?thesis
    unfolding Status res by simp
qed

theorem membership_mapping_witness:
  "(7::tg_id) \<notin> set (admin_ids news_bot) \<and> channel_username news_bot \<noteq> []
   \<and> fst (check_subscription news_bot (world_of (Status ''left'') (Inl ''none'') 100) start_state 7) = False
   \<and> list_all (\<lambda>r. is_subscribed r = sql_bool False \<and> subscription_checked_at r = STime 100)
        (select_user (users (db (snd (check_subscription news_bot
            (world_of (Status ''left'') (Inl ''none'') 100) start_state 7)))) 7)"
proof -
  have h1: "(7::tg_id) \<notin> set (admin_ids news_bot)"
    by (simp add: news_bot_def)
  have h2: "channel_username news_bot \<noteq> []"
    by (simp add: news_bot_def)
  have q: "chat_member (world_of (Status ''left'') (Inl ''none'') 100) (effects start_state)
             (''@'' @ channel_username news_bot) 7 = Status ''left''"
    by (simp add: world_of_def)
  have c: "clock (world_of (Status ''left'') (Inl ''none'') 100) = 100"
    by (simp add: world_of_def)
  note mm = membership_mapping [OF h1 h2, of "world_of (Status ''left'') (Inl ''none'') 100" start_state,
      unfolded q c query_result.case]
  from mm have f: "\<not> fst (check_subscription news_bot
      (world_of (Status ''left'') (Inl ''none'') 100) start_state 7)"
    by simp
  from mm f h1 h2 show ?thesis
    by simp
qed

text \<open>
  C2 as stated fails on the query-error path: the user was recorded as subscribed at
  time 100; the query at time 200 raises, the decision is \<^verbatim>\<open>False\<close>, and the row still
  says subscribed, checked at time 100.
\<close>

theorem query_error_keeps_row_counterexample:
  "fst member_then_error = False
   \<and> map is_subscribed (select_user (users (db (snd member_then_error))) 7) = [sql_bool True]
   \<and> map subscription_checked_at (select_user (users (db (snd member_then_error))) 7) = [STime 100]
   \<and> sql_bool True \<noteq> sql_bool (fst member_then_error)"
  by code_simp



text \<open>
  C1 on the code: after one successful download of a new user the counter is 1, and
  after a second successful download it is 1 again, not 2. The call passes
  \<^verbatim>\<open>total_downloads=1\<close>, which the UPDATE stores as it is.
\<close>

theorem counter_overwritten:
  "map total_downloads (select_user (users (db (download_once (Inr clip) start_state))) 7) = [SInt 1]
   \<and> map total_downloads
        (select_user (users (db (download_once (Inr clip) (download_once (Inr clip) start_state)))) 7)
       = [SInt 1]"
  by code_simp

text \<open>
  C3, amended. \<^verbatim>\<open>start_command\<close> begins with the upsert of the sender's row with
  \<^verbatim>\<open>username\<close>, \<^verbatim>\<open>first_name\<close>, \<^verbatim>\<open>last_name\<close>, \<^verbatim>\<open>language_code\<close> of the update and
  \<^verbatim>\<open>last_activity\<close> set to the clock; when it returns, the sender has a row and that
  row holds these values. \<^verbatim>\<open>handle_message\<close> begins with the subscription gate (for
  a sender outside the allow-list and a configured channel its first call is the
  membership query); when the gate blocks it hands over to \<^verbatim>\<open>start_command\<close>, and
  when the gate authorizes it makes no upsert of the profile at all.
\<close>

theorem router_order:
  "(\<exists>rest. new_effects s (start_command m w u s) =
       UpdateUserInfo (sender_id u)
         [(''username'', opt_text (sender_username u)),
          (''first_name'', opt_text (sender_first_name u)),
          (''last_name'', opt_text (sender_last_name u)),
          (''language_code'', opt_text (sender_language_code u)),
          (''last_activity'', STime (clock w))] # rest)
   \<and> select_user (users (db (start_command m w u s))) (sender_id u) \<noteq> []
   \<and> list_all (\<lambda>r. username r = opt_text (sender_username u)
                  \<and> first_name r = opt_text (sender_first_name u)
                  \<and> last_name r = opt_text (sender_last_name u)
                  \<and> language_code r = opt_text (sender_language_code u)
                  \<and> last_activity r = STime (clock w))
        (select_user (users (db (start_command m w u s))) (sender_id u))
   \<and> (\<not> fst (check_subscription m w s (sender_id u)) \<longrightarrow>
        handle_message m w u s = start_command m w u (snd (check_subscription m w s (sender_id u))))
   \<and> (fst (check_subscription m w s (sender_id u)) \<longrightarrow>
        profile_updates (new_effects s (handle_message m w u s)) = [])
   \<and> (sender_id u \<notin> set (admin_ids m) \<and> channel_username m \<noteq> [] \<longrightarrow>
        (\<exists>rest. new_effects s (handle_message m w u s) =
           GetChatMember (''@'' @ channel_username m) (sender_id u) # rest))"
proof -
  obtain ok s1 where g: "check_subscription m w s (sender_id u) = (ok, s1)"
    by (cases "check_subscription m w s (sender_id u)")
  have blocked: "handle_message m w u s = start_command m w u s1" if "\<not> ok"
    using g that by (simp add: handle_message_def)
  have auth: "profile_updates (new_effects s (handle_message m w u s)) = []" if ok
  proof -
    from g that handle_message_authorized [of m w s u s1]
    obtain xs where "effects (handle_message m w u s) = effects s @ xs" "profile_updates xs = []"
      by auto
    then show ?thesis
      by (simp add: new_effects_def)
  qed
  have first: "\<exists>rest. new_effects s (handle_message m w u s) =
           GetChatMember (''@'' @ channel_username m) (sender_id u) # rest"
    if na: "sender_id u \<notin> set (admin_ids m)" "channel_username m \<noteq> []"
  proof -
    from check_subscription_effects [of m w s "sender_id u"] g na
    obtain ys where s1: "effects s1 = effects s @ GetChatMember (''@'' @ channel_username m) (sender_id u) # ys"
      by auto
    show ?thesis
    proof (cases ok)
      case True
      show ?thesis
      proof (cases "extract_urls_from_text (message_text u)")
        case Nil
        with g True s1 show ?thesis
          by (simp add: handle_message_def handle_admin_commands_def new_effects_def)
      next
        case (Cons url others)
        from process_download_effects [of m w u s1 url]
        obtain zs where "effects (process_download m w u s1 url) = effects s1 @ zs"
          by blast
        with g True s1 Cons show ?thesis
          by (simp add: handle_message_def new_effects_def)
      qed
    next
      case False
      from start_command_effects [of s1 m w u]
      obtain zs where "new_effects s1 (start_command m w u s1) = zs"
        by blast
      let ?p = "run_update m w s1 (sender_id u)
         [(''username'', opt_text (sender_username u)),
          (''first_name'', opt_text (sender_first_name u)),
          (''last_name'', opt_text (sender_last_name u)),
          (''language_code'', opt_text (sender_language_code u)),
          (''last_activity'', STime (clock w))]"
      obtain ok2 s2 where g2: "check_subscription m w ?p (sender_id u) = (ok2, s2)"
        by (cases "check_subscription m w ?p (sender_id u)")
      from check_subscription_effects [of m w ?p "sender_id u"] g2
      obtain xs where "effects s2 = effects ?p @ xs"
        by auto
      with g g2 False s1 show ?thesis
        by (simp add: handle_message_def start_command_def Let_def show_main_interface_def
            new_effects_def)
    qed
  qed
  from g have fs: "fst (check_subscription m w s (sender_id u)) = ok"
    "snd (check_subscription m w s (sender_id u)) = s1"
    by simp_all
  note c1 = start_command_effects [of s m w u]
  note c2 = start_command_row [of m w u s, THEN conjunct1]
  note c3 = start_command_row [of m w u s, THEN conjunct2]
  have c4: "\<not> ok \<longrightarrow> handle_message m w u s = start_command m w u s1"
    by (rule impI) (rule blocked)
  have c5: "ok \<longrightarrow> profile_updates (new_effects s (handle_message m w u s)) = []"
    by (rule impI) (rule auth)
  have c6: "sender_id u \<notin> set (admin_ids m) \<and> channel_username m \<noteq> [] \<longrightarrow>
        (\<exists>rest. new_effects s (handle_message m w u s) =
           GetChatMember (''@'' @ channel_username m) (sender_id u) # rest)"
    by (rule impI, elim conjE) (rule first)
  from c1 c2 c3 c4 c5 c6 show ?thesis
    unfolding fs by (intro conjI) assumption+
qed

theorem router_order_witness:
  "\<not> fst (check_subscription news_bot (world_of (Status ''left'') (Inl ''none'') 100) start_state
        (sender_id (message_from 7 ''hello'')))
   \<and> handle_message news_bot (world_of (Status ''left'') (Inl ''none'') 100) (message_from 7 ''hello'') start_state
       = start_command news_bot (world_of (Status ''left'') (Inl ''none'') 100) (message_from 7 ''hello'')
           (snd (check_subscription news_bot (world_of (Status ''left'') (Inl ''none'') 100) start_state
              (sender_id (message_from 7 ''hello''))))
   \<and> sender_id (message_from 7 ''hello'') \<notin> set (admin_ids news_bot)
   \<and> channel_username news_bot \<noteq> []
   \<and> (\<exists>rest. new_effects start_state
         (handle_message news_bot (world_of (Status ''left'') (Inl ''none'') 100) (message_from 7 ''hello'') start_state)
        = GetChatMember (''@'' @ channel_username news_bot) (sender_id (message_from 7 ''hello'')) # rest)
   \<and> fst (check_subscription news_bot (world_of (Status ''member'') (Inl ''none'') 100) start_state
        (sender_id (message_from 7 ''hello'')))
   \<and> profile_updates (new_effects start_state
        (handle_message news_bot (world_of (Status ''member'') (Inl ''none'') 100) (message_from 7 ''hello'') start_state)) = []
   \<and> map username (select_user (users (db
        (start_command news_bot (world_of (Status ''left'') (Inl ''none'') 100)
           (message_from 7 ''hello'') start_state))) 7) = [SText ''bob'']"
proof -
  let ?wl = "world_of (Status ''left'') (Inl ''none'') 100"
  let ?wm = "world_of (Status ''member'') (Inl ''none'') 100"
  let ?u = "message_from 7 ''hello''"
  have h1: "\<not> fst (check_subscription news_bot ?wl start_state (sender_id ?u))"
    by code_simp
  have h2: "sender_id ?u \<notin> set (admin_ids news_bot)"
    by (simp add: news_bot_def message_from_def)
  have h3: "channel_username news_bot \<noteq> []"
    by (simp add: news_bot_def)
  have h4: "fst (check_subscription news_bot ?wm start_state (sender_id ?u))"
    by code_simp
  have h5: "map username (select_user (users (db (start_command news_bot ?wl ?u start_state))) 7)
              = [SText ''bob'']"
    by code_simp
  note a = router_order [of start_state news_bot ?wl ?u]
  note b = router_order [of start_state news_bot ?wm ?u]
  from a [THEN conjunct2, THEN conjunct2, THEN conjunct2, THEN conjunct1, rule_format, OF h1]
  have a1: "handle_message news_bot ?wl ?u start_state
       = start_command news_bot ?wl ?u (snd (check_subscription news_bot ?wl start_state (sender_id ?u)))" .
  from a [THEN conjunct2, THEN conjunct2, THEN conjunct2, THEN conjunct2, THEN conjunct2, rule_format,
      OF conjI, OF h2 h3]
  have a2: "\<exists>rest. new_effects start_state (handle_message news_bot ?wl ?u start_state)
        = GetChatMember (''@'' @ channel_username news_bot) (sender_id ?u) # rest" .
  from b [THEN conjunct2, THEN conjunct2, THEN conjunct2, THEN conjunct2, THEN conjunct1, rule_format, OF h4]
  have b1: "profile_updates (new_effects start_state (handle_message news_bot ?wm ?u start_state)) = []" .
  from h1 a1 h2 h3 a2 h4 b1 h5 show ?thesis
    by (intro conjI) assumption+
qed

text \<open>
  C3 as stated fails for a text message. With a channel and a member as sender, the
  first call of the run is the membership query, the only write is the gate's, and
  the row keeps \<^verbatim>\<open>username\<close> NULL although the sender has a user name. Without a
  channel the run writes no row at all.
\<close>

theorem message_without_upsert_counterexample:
  "new_effects start_state
      (handle_message news_bot (world_of (Status ''member'') (Inl ''none'') 100)
         (message_from 7 ''hello'') start_state)
     = [GetChatMember ''@news'' 7,
        UpdateUserInfo 7 [(''is_subscribed'', sql_bool True), (''subscription_checked_at'', STime 100)],
        ReplyText MsgSendUrl]
   \<and> sender_username (message_from 7 ''hello'') = Some ''bob''
   \<and> map username (select_user (users (db
        (handle_message news_bot (world_of (Status ''member'') (Inl ''none'') 100)
           (message_from 7 ''hello'') start_state))) 7) = [SNull]
   \<and> users (db (handle_message open_bot (world_of (Status ''member'') (Inl ''none'') 100)
        (message_from 7 ''hello'') start_state)) = []"
  by code_simp

text \<open>
  C7. The example text yields exactly the one URL, whose platform is YouTube. For an
  authorized sender and a text with at least one URL the router runs the download of
  the first URL and the media extractor is asked for that URL only. For an
  authorized sender outside the allow-list and a text without URL the router replies
  with the prompt to send a URL and asks the media extractor for nothing.
\<close>

theorem url_routing:
  "extract_urls_from_text ''check this out https://youtu.be/abc123 thanks'' = [''https://youtu.be/abc123'']
   \<and> detect_platform (urlsplit_netloc b) ''https://youtu.be/abc123'' = ''YouTube''
   \<and> (fst (check_subscription m w s (sender_id u))
        \<and> extract_urls_from_text (message_text u) = url # others \<longrightarrow>
        handle_message m w u s = process_download m w u (snd (check_subscription m w s (sender_id u))) url
        \<and> fetched (new_effects s (handle_message m w u s)) = [url])
   \<and> (fst (check_subscription m w s (sender_id u))
        \<and> extract_urls_from_text (message_text u) = []
        \<and> \<not> is_user_admin (admin_ids m) (sender_id u) \<longrightarrow>
        handle_message m w u s = emit (snd (check_subscription m w s (sender_id u))) (ReplyText MsgSendUrl)
        \<and> fetched (new_effects s (handle_message m w u s)) = [])"
proof -
  obtain ok s1 where g: "check_subscription m w s (sender_id u) = (ok, s1)"
    by (cases "check_subscription m w s (sender_id u)")
  have plat: "detect_platform (urlsplit_netloc b) ''https://youtu.be/abc123'' = ''YouTube''"
    by (simp only: detect_platform_def netloc_youtu_be option.case find_youtu_be)
  have f: "fetched (new_effects s (handle_message m w u s)) =
        (case extract_urls_from_text (message_text u) of [] \<Rightarrow> [] | url # _ \<Rightarrow> [url])" if ok
  proof -
    from g that handle_message_authorized [of m w s u s1]
    obtain xs where "effects (handle_message m w u s) = effects s @ xs"
      "fetched xs = (case extract_urls_from_text (message_text u) of [] \<Rightarrow> [] | url # _ \<Rightarrow> [url])"
      by auto
    then show ?thesis
      by (simp add: new_effects_def)
  qed
  have a: "handle_message m w u s = process_download m w u s1 url"
    if ok "extract_urls_from_text (message_text u) = url # others"
    using g that by (simp add: handle_message_def)
  have n: "handle_message m w u s = emit s1 (ReplyText MsgSendUrl)"
    if ok "extract_urls_from_text (message_text u) = []" "\<not> is_user_admin (admin_ids m) (sender_id u)"
    using g that by (simp add: handle_message_def)
  have f1: "fetched (new_effects s (handle_message m w u s)) = [url]"
    if ok "extract_urls_from_text (message_text u) = url # others"
    using f that by simp
  have f2: "fetched (new_effects s (handle_message m w u s)) = []"
    if ok "extract_urls_from_text (message_text u) = []"
    using f that by simp
  from g have fs: "fst (check_subscription m w s (sender_id u)) = ok"
    "snd (check_subscription m w s (sender_id u)) = s1"
    by simp_all
  show ?thesis
    unfolding fs using extract_example plat f1 f2 a n by blast
qed

theorem url_routing_witness:
  "fst (check_subscription open_bot (world_of (Status ''left'') (Inr clip) 100) start_state
      (sender_id (message_from 7 ''check this out https://youtu.be/abc123 thanks'')))
   \<and> extract_urls_from_text (message_text (message_from 7 ''check this out https://youtu.be/abc123 thanks''))
       = ''https://youtu.be/abc123'' # []
   \<and> fetched (new_effects start_state
        (handle_message open_bot (world_of (Status ''left'') (Inr clip) 100)
           (message_from 7 ''check this out https://youtu.be/abc123 thanks'') start_state))
       = [''https://youtu.be/abc123'']
   \<and> fst (check_subscription open_bot (world_of (Status ''left'') (Inr clip) 100) start_state
        (sender_id (message_from 7 ''hello'')))
   \<and> extract_urls_from_text (message_text (message_from 7 ''hello'')) = []
   \<and> \<not> is_user_admin (admin_ids open_bot) (sender_id (message_from 7 ''hello''))
   \<and> handle_message open_bot (world_of (Status ''left'') (Inr clip) 100) (message_from 7 ''hello'') start_state
       = emit (snd (check_subscription open_bot (world_of (Status ''left'') (Inr clip) 100) start_state
                 (sender_id (message_from 7 ''hello'')))) (ReplyText MsgSendUrl)
   \<and> fetched (new_effects start_state
        (handle_message open_bot (world_of (Status ''left'') (Inr clip) 100) (message_from 7 ''hello'') start_state)) = []"
proof -
  have h1: "fst (check_subscription open_bot (world_of (Status ''left'') (Inr clip) 100) start_state
      (sender_id (message_from 7 ''check this out https://youtu.be/abc123 thanks'')))"
    by (simp add: check_subscription_def open_bot_def)
  have h2: "extract_urls_from_text (message_text (message_from 7 ''check this out https://youtu.be/abc123 thanks''))
       = ''https://youtu.be/abc123'' # []"
    by (simp add: message_from_def extract_example)
  have h3: "fst (check_subscription open_bot (world_of (Status ''left'') (Inr clip) 100) start_state
        (sender_id (message_from 7 ''hello'')))"
    by (simp add: check_subscription_def open_bot_def)
  have h4: "extract_urls_from_text (message_text (message_from 7 ''hello'')) = []"
    by (simp add: message_from_def no_url_in_hello)
  have h5: "\<not> is_user_admin (admin_ids open_bot) (sender_id (message_from 7 ''hello''))"
    by (simp add: is_user_admin_def open_bot_def message_from_def)
  from url_routing [where m = open_bot and w = "world_of (Status ''left'') (Inr clip) 100"
        and s = start_state and u = "message_from 7 ''check this out https://youtu.be/abc123 thanks''"
        and url = "''https://youtu.be/abc123''" and others = "[]"]
    url_routing [where m = open_bot and w = "world_of (Status ''left'') (Inr clip) 100"
        and s = start_state and u = "message_from 7 ''hello''"]
    h1 h2 h3 h4 h5
  show ?thesis
    by blast
qed

text \<open>
  C9, amended. \<^verbatim>\<open>detect_platform\<close> looks at the network location of the URL
  (\<^verbatim>\<open>netloc\<close>: user information, host and port), in lower case. Where the parser
  raises, and where no configured domain is a substring of that text, the label is
  \<^verbatim>\<open>Unknown\<close>; otherwise it is the label of the first mapping, in table order, whose
  domain is a substring of it. The label of \<^verbatim>\<open>https://example.org/x\<close> is
  \<^verbatim>\<open>Unknown\<close>.
\<close>

theorem detect_platform_netloc:
  "(netloc url = None \<longrightarrow> detect_platform netloc url = ''Unknown'')
   \<and> (netloc url = Some n \<and> matching supported_domains (lower n) = [] \<longrightarrow>
        detect_platform netloc url = ''Unknown'')
   \<and> (netloc url = Some n \<and> matching supported_domains (lower n) = entry # rest \<longrightarrow>
        detect_platform netloc url = snd entry)
   \<and> detect_platform (urlsplit_netloc b) ''https://example.org/x'' = ''Unknown''"
proof -
  have unparsed: "detect_platform netloc url = ''Unknown''" if "netloc url = None"
    using that by (simp add: detect_platform_def)
  have none: "detect_platform netloc url = ''Unknown''"
    if "netloc url = Some n" "matching supported_domains (lower n) = []"
    using that by (simp add: detect_platform_def find_platform_matching)
  have first: "detect_platform netloc url = snd entry"
    if "netloc url = Some n" "matching supported_domains (lower n) = entry # rest"
    using that by (simp add: detect_platform_def find_platform_matching)
  have example: "detect_platform (urlsplit_netloc b) ''https://example.org/x'' = ''Unknown''"
    by (simp add: detect_platform_def find_platform_matching netloc_example_org no_match_example_org)
  from unparsed none first example show ?thesis
    by blast
qed

theorem detect_platform_netloc_witness:
  "urlsplit_netloc any_host ''http://[youtube.com/'' = None
   \<and> detect_platform (urlsplit_netloc any_host) ''http://[youtube.com/'' = ''Unknown''
   \<and> urlsplit_netloc any_host ''https://example.org/x'' = Some ''example.org''
   \<and> matching supported_domains (lower ''example.org'') = []
   \<and> detect_platform (urlsplit_netloc any_host) ''https://example.org/x'' = ''Unknown''
   \<and> urlsplit_netloc any_host ''https://x.com.youtu.be/'' = Some ''x.com.youtu.be''
   \<and> matching supported_domains (lower ''x.com.youtu.be'')
       = (''youtu.be'', ''YouTube'') # [(''x.com'', ''Twitter/X'')]
   \<and> detect_platform (urlsplit_netloc any_host) ''https://x.com.youtu.be/'' = snd (''youtu.be'', ''YouTube'')"
proof -
  have h1: "urlsplit_netloc any_host ''http://[youtube.com/'' = None"
    by code_simp
  have h2: "urlsplit_netloc any_host ''https://example.org/x'' = Some ''example.org''"
    by code_simp
  have h3: "matching supported_domains (lower ''example.org'') = []"
    by code_simp
  have h4: "urlsplit_netloc any_host ''https://x.com.youtu.be/'' = Some ''x.com.youtu.be''"
    by code_simp
  have h5: "matching supported_domains (lower ''x.com.youtu.be'')
       = (''youtu.be'', ''YouTube'') # [(''x.com'', ''Twitter/X'')]"
    by code_simp
  from detect_platform_netloc [of "urlsplit_netloc any_host" "''http://[youtube.com/''"]
    detect_platform_netloc [of "urlsplit_netloc any_host" "''https://example.org/x''" "''example.org''"]
    detect_platform_netloc [of "urlsplit_netloc any_host" "''https://x.com.youtu.be/''" "''x.com.youtu.be''"
      "(''youtu.be'', ''YouTube'')" "[(''x.com'', ''Twitter/X'')]"]
    h1 h2 h3 h4 h5
  show ?thesis
    by blast
qed

text \<open>
  C9 as stated fails: the host of \<^verbatim>\<open>https://youtube.com@example.org/x\<close> is
  \<^verbatim>\<open>example.org\<close>, which contains none of the configured domains, and the label is
  \<^verbatim>\<open>YouTube\<close>, found in the user information.
\<close>

theorem host_is_not_netloc_counterexample:
  "urlsplit_netloc any_host ''https://youtube.com@example.org/x'' = Some ''youtube.com@example.org''
   \<and> hostname_of ''youtube.com@example.org'' = ''example.org''
   \<and> matching supported_domains ''example.org'' = []
   \<and> detect_platform (urlsplit_netloc any_host) ''https://youtube.com@example.org/x'' = ''YouTube''"
  by code_simp

end
